theory Spec2Isabelle
  imports Complex_Main "HOL-Library.Product_Lexorder" "HOL-Library.Multiset"
begin

section \<open>Calendar dates\<close>

text \<open>
  The \<open>date\<close> column holds pandas timestamps at midnight (the dataset has no time
  component). A date is modelled as its day number: the number of days since
  1970-01-01, an \<open>int\<close>. Differences of dates are then differences of integers and
  \<open>pd.Timedelta(days=n)\<close> is the integer \<open>n\<close>.
  The conversion between day numbers and the proleptic Gregorian calendar is the usual
  era-based computation (eras of 400 years, years counted from 1 March).
\<close>

definition days_from_civil :: "int \<Rightarrow> int \<Rightarrow> int \<Rightarrow> int" where
  "days_from_civil y m d =
     (let y' = (if m \<le> 2 then y - 1 else y);
          era = y' div 400;
          yoe = y' - era * 400;
          doy = (153 * (if m > 2 then m - 3 else m + 9) + 2) div 5 + d - 1;
          doe = yoe * 365 + yoe div 4 - yoe div 100 + doy
      in era * 146097 + doe - 719468)"

definition civil_from_days :: "int \<Rightarrow> int \<times> int \<times> int" where
  "civil_from_days z =
     (let z' = z + 719468;
          era = z' div 146097;
          doe = z' - era * 146097;
          yoe = (doe - doe div 1460 + doe div 36524 - doe div 146096) div 365;
          doy = doe - (365 * yoe + yoe div 4 - yoe div 100);
          mp = (5 * doy + 2) div 153;
          d = doy - (153 * mp + 2) div 5 + 1;
          m = (if mp < 10 then mp + 3 else mp - 9);
          y = yoe + era * 400
      in (if m \<le> 2 then y + 1 else y, m, d))"

definition is_leap :: "int \<Rightarrow> bool" where
  "is_leap y = (y mod 4 = 0 \<and> (y mod 100 \<noteq> 0 \<or> y mod 400 = 0))"

definition days_in_month :: "int \<Rightarrow> int \<Rightarrow> int" where
  "days_in_month y m =
     (if m = 2 then (if is_leap y then 29 else 28)
      else if m = 4 \<or> m = 6 \<or> m = 9 \<or> m = 11 then 30 else 31)"

text \<open>
  \<open>ts + pd.DateOffset(years=n)\<close>: the year is shifted by \<open>n\<close>, month and day are kept,
  and the day is clipped to the length of the month (29 February becomes 28 February
  in a year that is not a leap year). \<open>ts - pd.DateOffset(years=1)\<close> is
  \<open>add_years (-1) ts\<close>.
\<close>

definition add_years :: "int \<Rightarrow> int \<Rightarrow> int" where
  "add_years n ts =
     (case civil_from_days ts of
        (y, m, d) \<Rightarrow> days_from_civil (y + n) m (min d (days_in_month (y + n) m)))"

text \<open>\<open>Timestamp.dayofweek\<close>: Monday is 0, Sunday is 6; 1970-01-01 was a Thursday.\<close>

definition dayofweek :: "int \<Rightarrow> int" where
  "dayofweek ts = (ts + 3) mod 7"

definition month_of :: "int \<Rightarrow> int" where
  "month_of ts = (case civil_from_days ts of (y, m, d) \<Rightarrow> m)"

section \<open>Numeric cells\<close>

text \<open>
  A numeric cell of a dataframe is a float. It is modelled as an exact rational, a
  missing value \<open>NaN\<close>, or one of the two infinities (which a division by zero
  produces). Rounding, overflow and the sign of zero are not modelled.
\<close>

datatype fl = NaN | Num rat | PInf | NInf

fun fl_neg :: "fl \<Rightarrow> fl" where
  "fl_neg NaN = NaN"
| "fl_neg (Num a) = Num (- a)"
| "fl_neg PInf = NInf"
| "fl_neg NInf = PInf"

fun fl_add :: "fl \<Rightarrow> fl \<Rightarrow> fl" where
  "fl_add NaN _ = NaN"
| "fl_add _ NaN = NaN"
| "fl_add (Num a) (Num b) = Num (a + b)"
| "fl_add PInf NInf = NaN"
| "fl_add NInf PInf = NaN"
| "fl_add PInf _ = PInf"
| "fl_add NInf _ = NInf"
| "fl_add (Num a) PInf = PInf"
| "fl_add (Num a) NInf = NInf"

definition fl_sub :: "fl \<Rightarrow> fl \<Rightarrow> fl" where
  "fl_sub a b = fl_add a (fl_neg b)"

fun fl_abs :: "fl \<Rightarrow> fl" where
  "fl_abs NaN = NaN"
| "fl_abs (Num a) = Num \<bar>a\<bar>"
| "fl_abs PInf = PInf"
| "fl_abs NInf = PInf"

text \<open>Multiplication of a cell by a finite constant (the factors 0.97 and 1.03).\<close>

fun fl_scale :: "fl \<Rightarrow> rat \<Rightarrow> fl" where
  "fl_scale NaN c = NaN"
| "fl_scale (Num a) c = Num (a * c)"
| "fl_scale PInf c = (if c > 0 then PInf else if c < 0 then NInf else NaN)"
| "fl_scale NInf c = (if c > 0 then NInf else if c < 0 then PInf else NaN)"

fun fl_div :: "fl \<Rightarrow> fl \<Rightarrow> fl" where
  "fl_div NaN _ = NaN"
| "fl_div _ NaN = NaN"
| "fl_div (Num a) (Num b) =
     (if b \<noteq> 0 then Num (a / b)
      else if a > 0 then PInf else if a < 0 then NInf else NaN)"
| "fl_div (Num a) PInf = Num 0"
| "fl_div (Num a) NInf = Num 0"
| "fl_div PInf (Num b) = (if b \<ge> 0 then PInf else NInf)"
| "fl_div NInf (Num b) = (if b \<ge> 0 then NInf else PInf)"
| "fl_div PInf _ = NaN"
| "fl_div NInf _ = NaN"

text \<open>Comparisons: every comparison with \<open>NaN\<close> is false.\<close>

fun fl_lt :: "fl \<Rightarrow> fl \<Rightarrow> bool" where
  "fl_lt NaN _ = False"
| "fl_lt _ NaN = False"
| "fl_lt (Num a) (Num b) = (a < b)"
| "fl_lt NInf NInf = False"
| "fl_lt NInf _ = True"
| "fl_lt _ NInf = False"
| "fl_lt PInf _ = False"
| "fl_lt (Num a) PInf = True"

definition fl_gt :: "fl \<Rightarrow> fl \<Rightarrow> bool" where
  "fl_gt a b = fl_lt b a"

definition fl_le :: "fl \<Rightarrow> fl \<Rightarrow> bool" where
  "fl_le a b = (a \<noteq> NaN \<and> b \<noteq> NaN \<and> \<not> fl_lt b a)"

definition isna :: "fl \<Rightarrow> bool" where
  "isna a = (a = NaN)"

text \<open>
  \<open>Series.mean()\<close> skips missing values; the mean of no value at all is \<open>NaN\<close>.
\<close>

definition fl_sum :: "fl list \<Rightarrow> fl" where
  "fl_sum vs = foldl fl_add (Num 0) vs"

definition mean :: "fl list \<Rightarrow> fl" where
  "mean vs =
     (let xs = filter (\<lambda>v. \<not> isna v) vs
      in if xs = [] then NaN else fl_div (fl_sum xs) (Num (of_nat (length xs))))"

section \<open>Records and dataframes\<close>

text \<open>
  One row of the price dataset. \<open>multiunit_id\<close> is an opaque key (a number here).
  The cell \<open>is_extrapolated\<close> is \<open>None\<close> where pandas holds a missing value.
  A dataframe is its set of column labels and its rows; the columns \<open>multiunit_id\<close> and
  \<open>date\<close> are always there, the others are there when their label is in \<open>columns\<close>
  (a field of a row whose column is absent is never read). \<open>date_dtype\<close> tells whether
  the date column still holds strings (\<open>Object\<close>) or timestamps (\<open>Datetime64\<close>); the
  day number of a row is the date its cell denotes in both cases.
\<close>

record row =
  multiunit_id :: nat
  date :: int
  base :: fl
  seasonality :: fl
  dow :: fl
  event :: fl
  price :: fl
  total_price :: fl
  is_extrapolated :: "bool option"

datatype dtype = Object | Datetime64

record dataframe =
  columns :: "string set"
  date_dtype :: dtype
  rows :: "row list"

datatype py_error = KeyError string | ValueError | UnboundLocalError string | AttributeError

text \<open>\<open>df['date'] = pd.to_datetime(df['date'])\<close> when the column holds strings.\<close>

definition convert_dates :: "dataframe \<Rightarrow> dataframe" where
  "convert_dates df = (if date_dtype df = Object then df\<lparr>date_dtype := Datetime64\<rparr> else df)"

section \<open>PriceProcessor.calculate_total_price\<close>

text \<open>
  \<open>result_df[col] = 0\<close> for a factor column that is not in the frame: the column is
  added and every row holds 0 there.
\<close>

definition set_factor :: "string \<Rightarrow> fl \<Rightarrow> row \<Rightarrow> row" where
  "set_factor col v r =
     (if col = ''base'' then r\<lparr>base := v\<rparr>
      else if col = ''seasonality'' then r\<lparr>seasonality := v\<rparr>
      else if col = ''dow'' then r\<lparr>dow := v\<rparr>
      else if col = ''event'' then r\<lparr>event := v\<rparr>
      else r)"

definition get_factor :: "string \<Rightarrow> row \<Rightarrow> fl" where
  "get_factor col r =
     (if col = ''base'' then base r
      else if col = ''seasonality'' then seasonality r
      else if col = ''dow'' then dow r
      else if col = ''event'' then event r
      else NaN)"

definition factor_columns :: "string list" where
  "factor_columns = [''base'', ''seasonality'', ''dow'', ''event'']"

definition default_column :: "dataframe \<Rightarrow> string \<Rightarrow> dataframe" where
  "default_column result_df col =
     (if col \<notin> columns result_df
      then result_df\<lparr>columns := insert col (columns result_df),
                     rows := map (set_factor col (Num 0)) (rows result_df)\<rparr>
      else result_df)"

definition sum_factors :: "row \<Rightarrow> fl" where
  "sum_factors r = fl_add (fl_add (fl_add (base r) (seasonality r)) (dow r)) (event r)"

text \<open>
  The function returns a pair: the dataset it was given as it is when the call returns,
  and the result. It works on a copy, so the first component is the argument.
\<close>

definition calculate_total_price :: "dataframe \<Rightarrow> dataframe \<times> dataframe" where
  "calculate_total_price df =
     (let result_df = foldl default_column df factor_columns;
          result_df = result_df\<lparr>columns := insert ''total_price'' (columns result_df),
                                rows := map (\<lambda>r. r\<lparr>total_price := sum_factors r\<rparr>) (rows result_df)\<rparr>
      in (df, result_df))"

section \<open>PriceProcessor.extrapolate_prices_backward\<close>

definition target_start_date :: int where
  "target_start_date = days_from_civil 2024 1 1"

text \<open>\<open>Series.min()\<close> of the date column; \<open>None\<close> is \<open>NaT\<close>, the minimum of no date.\<close>

fun min_date :: "row list \<Rightarrow> int option" where
  "min_date [] = None"
| "min_date (r # rs) =
     (case min_date rs of None \<Rightarrow> Some (date r) | Some m \<Rightarrow> Some (min (date r) m))"

text \<open>\<open>Series.unique()\<close>: the distinct values in order of first appearance.\<close>

fun unique :: "'a list \<Rightarrow> 'a list" where
  "unique [] = []"
| "unique (x # xs) = x # filter (\<lambda>y. y \<noteq> x) (unique xs)"

text \<open>
  \<open>(frame['date'] - t).abs().idxmin()\<close> followed by the lookup of that row, and
  \<open>abs(frame['date'] - t).argmin()\<close> followed by \<open>iloc\<close>: the first row at the least
  distance from \<open>t\<close>.
\<close>

fun closest_row :: "int \<Rightarrow> row list \<Rightarrow> row option" where
  "closest_row t [] = None"
| "closest_row t (r # rs) =
     (case closest_row t rs of
        None \<Rightarrow> Some r
      | Some b \<Rightarrow> if \<bar>date r - t\<bar> \<le> \<bar>date b - t\<bar> then Some r else Some b)"

text \<open>
  The dictionary \<open>new_row\<close>: the first three keys are always set, each of the others
  is \<open>None\<close> while the key is not in the dictionary.
\<close>

record new_row =
  nr_multiunit_id :: nat
  nr_date :: int
  nr_is_extrapolated :: bool
  nr_event :: "fl option"
  nr_seasonality :: "fl option"
  nr_base :: "fl option"
  nr_dow :: "fl option"
  nr_price :: "fl option"

text \<open>
  What survives from one pass of the loops to the next: the list \<open>extrapolated_data\<close>,
  the local variable \<open>closest_date\<close> (\<open>None\<close> while it has never been assigned; it is
  not reset between dates or between units), and the dates of the warnings logged.
\<close>

record extrapolation_state =
  extrapolated_data :: "new_row list"
  closest_date :: "row option"
  warnings :: "int list"

definition same_weekday_dates_of :: "row list \<Rightarrow> int \<Rightarrow> row list" where
  "same_weekday_dates_of grp future_date =
     filter (\<lambda>r. dayofweek (date r) = dayofweek future_date
                \<and> date r \<ge> future_date - 14 \<and> date r \<le> future_date + 14) grp"

definition all_factors_present :: "new_row \<Rightarrow> bool" where
  "all_factors_present nr =
     (nr_base nr \<noteq> None \<and> nr_seasonality nr \<noteq> None \<and> nr_dow nr \<noteq> None \<and> nr_event nr \<noteq> None)"

definition factor_price :: "new_row \<Rightarrow> fl" where
  "factor_price nr =
     fl_scale (fl_add (fl_add (fl_add (the (nr_base nr)) (the (nr_seasonality nr)))
                        (the (nr_dow nr))) (the (nr_event nr))) (97 / 100)"

text \<open>
  The body of the \<open>try\<close> block (source lines 102 to 118). It returns the row to append or
  the exception raised, together with the value of \<open>closest_date\<close> afterwards.
  \<open>factor_price\<close> is only evaluated under \<open>all_factors_present\<close>.
\<close>

definition try_block ::
  "string set \<Rightarrow> row list \<Rightarrow> int \<Rightarrow> new_row \<Rightarrow> row option \<Rightarrow> (py_error + new_row) \<times> row option" where
  "try_block cols same_weekday_dates future_date new_row cd =
     (let step1 =
            (if length same_weekday_dates \<ge> 2
             then Inr (new_row\<lparr>nr_dow := Some (mean (map dow same_weekday_dates))\<rparr>, cd)
             else (case closest_row future_date same_weekday_dates of
                     None \<Rightarrow> Inl ValueError
                   | Some c \<Rightarrow> Inr (new_row\<lparr>nr_dow := Some (dow c)\<rparr>, Some c)))
      in case step1 of
           Inl e \<Rightarrow> (Inl e, cd)
         | Inr (new_row, cd) \<Rightarrow>
             if all_factors_present new_row
             then (Inr (new_row\<lparr>nr_price := Some (factor_price new_row)\<rparr>), cd)
             else (case cd of
                     None \<Rightarrow> (Inl (UnboundLocalError ''closest_date''), cd)
                   | Some c \<Rightarrow>
                       if ''price'' \<in> cols \<and> \<not> isna (price c)
                       then (Inr (new_row\<lparr>nr_price := Some (fl_scale (price c) (97 / 100))\<rparr>), cd)
                       else (Inr new_row, cd)))"

text \<open>\<open>except (KeyError, ValueError)\<close>: the exceptions the handler catches.\<close>

fun caught :: "py_error \<Rightarrow> bool" where
  "caught (KeyError _) = True"
| "caught ValueError = True"
| "caught _ = False"

text \<open>One pass of the inner loop (source lines 70 to 121), for one missing date.\<close>

definition process_missing_date ::
  "string set \<Rightarrow> row list \<Rightarrow> nat \<Rightarrow> extrapolation_state \<Rightarrow> int \<Rightarrow> py_error + extrapolation_state" where
  "process_missing_date cols grp mid st missing_date =
     (let future_date = add_years 1 missing_date;
          new_row = \<lparr>nr_multiunit_id = mid, nr_date = missing_date, nr_is_extrapolated = True,
                     nr_event = None, nr_seasonality = None, nr_base = None, nr_dow = None,
                     nr_price = None\<rparr>;
          exact_future_match = filter (\<lambda>r. date r = future_date) grp;
          new_row = (if exact_future_match \<noteq> [] \<and> ''event'' \<in> cols
                     then new_row\<lparr>nr_event := Some (event (hd exact_future_match))\<rparr> else new_row);
          new_row = (if exact_future_match \<noteq> [] \<and> ''seasonality'' \<in> cols
                     then new_row\<lparr>nr_seasonality := Some (seasonality (hd exact_future_match))\<rparr>
                     else new_row);
          new_row = (if exact_future_match \<noteq> [] \<and> ''base'' \<in> cols
                     then new_row\<lparr>nr_base := Some (base (hd exact_future_match))\<rparr> else new_row);
          same_weekday_dates = same_weekday_dates_of grp future_date
      in if same_weekday_dates \<noteq> [] \<and> ''dow'' \<in> cols
         then (case try_block cols same_weekday_dates future_date new_row (closest_date st) of
                 (Inr nr, cd) \<Rightarrow>
                   Inr (st\<lparr>extrapolated_data := extrapolated_data st @ [nr], closest_date := cd\<rparr>)
               | (Inl e, cd) \<Rightarrow>
                   if caught e
                   then Inr (st\<lparr>closest_date := cd, warnings := warnings st @ [missing_date]\<rparr>)
                   else Inl e)
         else Inr st)"

fun for_missing_dates ::
  "string set \<Rightarrow> row list \<Rightarrow> nat \<Rightarrow> extrapolation_state \<Rightarrow> int list \<Rightarrow> py_error + extrapolation_state" where
  "for_missing_dates cols grp mid st [] = Inr st"
| "for_missing_dates cols grp mid st (d # ds) =
     (case process_missing_date cols grp mid st d of
        Inl e \<Rightarrow> Inl e
      | Inr st' \<Rightarrow> for_missing_dates cols grp mid st' ds)"

text \<open>
  One pass of the outer loop (source lines 55 to 121). \<open>pd.date_range(start, end)\<close> is
  the list of the days from \<open>start\<close> to \<open>end\<close>, both included.
\<close>

definition process_multiunit ::
  "dataframe \<Rightarrow> extrapolation_state \<Rightarrow> nat \<Rightarrow> py_error + extrapolation_state" where
  "process_multiunit df st mid =
     (let grp = sort_key date (filter (\<lambda>r. multiunit_id r = mid) (rows df))
      in case min_date grp of
           None \<Rightarrow> Inr st
         | Some group_earliest_date \<Rightarrow>
             if group_earliest_date > target_start_date
             then for_missing_dates (columns df) grp mid st
                    [target_start_date .. group_earliest_date - 1]
             else Inr st)"

fun for_multiunits ::
  "dataframe \<Rightarrow> extrapolation_state \<Rightarrow> nat list \<Rightarrow> py_error + extrapolation_state" where
  "for_multiunits df st [] = Inr st"
| "for_multiunits df st (mid # mids) =
     (case process_multiunit df st mid of
        Inl e \<Rightarrow> Inl e
      | Inr st' \<Rightarrow> for_multiunits df st' mids)"

text \<open>
  \<open>pd.DataFrame(extrapolated_data)\<close> and \<open>pd.concat\<close>: the columns of the combined frame
  are those of both frames, and a cell is missing where its frame did not have the
  column.
\<close>

definition to_row :: "new_row \<Rightarrow> row" where
  "to_row nr =
     \<lparr>multiunit_id = nr_multiunit_id nr, date = nr_date nr,
      base = (case nr_base nr of None \<Rightarrow> NaN | Some v \<Rightarrow> v),
      seasonality = (case nr_seasonality nr of None \<Rightarrow> NaN | Some v \<Rightarrow> v),
      dow = (case nr_dow nr of None \<Rightarrow> NaN | Some v \<Rightarrow> v),
      event = (case nr_event nr of None \<Rightarrow> NaN | Some v \<Rightarrow> v),
      price = (case nr_price nr of None \<Rightarrow> NaN | Some v \<Rightarrow> v),
      total_price = NaN,
      is_extrapolated = Some (nr_is_extrapolated nr)\<rparr>"

definition keys_of :: "new_row list \<Rightarrow> string set" where
  "keys_of nrs =
     {''is_extrapolated''}
     \<union> (if \<exists>nr \<in> set nrs. nr_event nr \<noteq> None then {''event''} else {})
     \<union> (if \<exists>nr \<in> set nrs. nr_seasonality nr \<noteq> None then {''seasonality''} else {})
     \<union> (if \<exists>nr \<in> set nrs. nr_base nr \<noteq> None then {''base''} else {})
     \<union> (if \<exists>nr \<in> set nrs. nr_dow nr \<noteq> None then {''dow''} else {})
     \<union> (if \<exists>nr \<in> set nrs. nr_price nr \<noteq> None then {''price''} else {})"

definition blank_absent :: "string set \<Rightarrow> row \<Rightarrow> row" where
  "blank_absent cols r =
     r\<lparr>base := (if ''base'' \<in> cols then base r else NaN),
       seasonality := (if ''seasonality'' \<in> cols then seasonality r else NaN),
       dow := (if ''dow'' \<in> cols then dow r else NaN),
       event := (if ''event'' \<in> cols then event r else NaN),
       price := (if ''price'' \<in> cols then price r else NaN),
       total_price := (if ''total_price'' \<in> cols then total_price r else NaN),
       is_extrapolated := (if ''is_extrapolated'' \<in> cols then is_extrapolated r else None)\<rparr>"

text \<open>
  Source lines 125 to 135: the concatenation, the flag \<open>False\<close> on the rows whose flag is
  missing (only when the input had no \<open>is_extrapolated\<close> column), and the sort by
  \<open>(multiunit_id, date)\<close>.
\<close>

definition fill_flag :: "row \<Rightarrow> row" where
  "fill_flag r = (if is_extrapolated r = None then r\<lparr>is_extrapolated := Some False\<rparr> else r)"

definition combine :: "dataframe \<Rightarrow> new_row list \<Rightarrow> dataframe" where
  "combine df nrs =
     (let combined = map (blank_absent (columns df)) (rows df) @ map to_row nrs;
          combined = (if ''is_extrapolated'' \<notin> columns df then map fill_flag combined else combined)
      in \<lparr>columns = columns df \<union> keys_of nrs,
          date_dtype = date_dtype df,
          rows = sort_key (\<lambda>r. (multiunit_id r, date r)) combined\<rparr>)"

definition add_flag_column :: "dataframe \<Rightarrow> dataframe" where
  "add_flag_column df =
     (if ''is_extrapolated'' \<notin> columns df
      then df\<lparr>columns := insert ''is_extrapolated'' (columns df),
              rows := map (\<lambda>r. r\<lparr>is_extrapolated := Some False\<rparr>) (rows df)\<rparr>
      else df)"

definition initial_state :: extrapolation_state where
  "initial_state = \<lparr>extrapolated_data = [], closest_date = None, warnings = []\<rparr>"

definition earliest_not_after :: "int option \<Rightarrow> int \<Rightarrow> bool" where
  "earliest_not_after earliest_date t = (case earliest_date of None \<Rightarrow> False | Some e \<Rightarrow> e \<le> t)"

text \<open>
  The function returns a pair: the dataset it was given as it is when the call returns
  (the source assigns to columns of its argument), and the result or the exception that
  leaves the function.
\<close>

definition extrapolate_prices_backward :: "dataframe \<Rightarrow> dataframe \<times> (py_error + dataframe)" where
  "extrapolate_prices_backward df0 =
     (let df = convert_dates df0;
          earliest_date = min_date (rows df)
      in if earliest_not_after earliest_date target_start_date then (df, Inr df)
         else (case for_multiunits df initial_state (unique (map multiunit_id (rows df))) of
                 Inl e \<Rightarrow> (df, Inl e)
               | Inr st \<Rightarrow>
                   if extrapolated_data st \<noteq> []
                   then (df, Inr (combine df (extrapolated_data st)))
                   else (let df' = add_flag_column df in (df', Inr df'))))"

section \<open>PriceProcessor.find_improved_matches\<close>

definition start_date :: int where
  "start_date = days_from_civil 2025 1 1"

definition end_date :: int where
  "end_date = days_from_civil 2026 3 31"

definition past_date_limit :: int where
  "past_date_limit = days_from_civil 2025 4 21"

text \<open>
  A row of the result: the dictionary \<open>new_row\<close> of source lines 277 to 293 (a key that
  is not set is \<open>None\<close>), and the column \<open>event_match\<close> that line 303 adds when the input
  has an event column.
\<close>

record match_row =
  m_multiunit_id :: nat
  m_date :: int
  matched_from :: int
  days_diff :: int
  is_improved_match :: bool
  match_reason :: string
  m_price :: "fl option"
  m_base :: "fl option"
  m_seasonality :: "fl option"
  m_dow :: "fl option"
  m_event :: "fl option"
  event_match :: "bool option"

text \<open>The candidates of the four matching strategies (source lines 215, 234, 249, 263).\<close>

definition past_event_matches :: "row list \<Rightarrow> int \<Rightarrow> fl \<Rightarrow> row list" where
  "past_event_matches past_group target_date future_event =
     filter (\<lambda>r. \<bar>date r - target_date\<bar> \<le> 14
                \<and> fl_le (fl_abs (fl_sub (event r) future_event)) (Num 20)) past_group"

definition past_dow_matches :: "int \<Rightarrow> row list \<Rightarrow> int \<Rightarrow> row list" where
  "past_dow_matches window past_group target_date =
     filter (\<lambda>r. \<bar>date r - target_date\<bar> \<le> window
                \<and> dayofweek (date r) = dayofweek target_date
                \<and> (isna (event r) \<or> fl_le (event r) (Num 10))) past_group"

definition closest_dates :: "row list \<Rightarrow> int \<Rightarrow> row list" where
  "closest_dates past_group target_date =
     filter (\<lambda>r. \<bar>date r - target_date\<bar> \<le> 14) past_group"

definition pick :: "int \<Rightarrow> row list \<Rightarrow> string \<Rightarrow> (int \<times> string) option" where
  "pick target_date candidates reason =
     (case closest_row target_date candidates of
        None \<Rightarrow> None
      | Some m \<Rightarrow> Some (date m, reason))"

text \<open>
  Source lines 206 to 270 for one target row: the date matched and the reason, \<open>None\<close>
  when the row is skipped, or the exception raised. The 21-day search reads
  \<open>past_group['event']\<close> whether or not the frame has that column.
\<close>

definition find_best_match ::
  "bool \<Rightarrow> row list \<Rightarrow> row \<Rightarrow> py_error + (int \<times> string) option" where
  "find_best_match has_event_column past_group future_row =
     (let future_date = date future_row;
          target_date = add_years (- 1) future_date;
          best_match =
            (if has_event_column \<and> fl_gt (event future_row) (Num 1)
             then pick target_date (past_event_matches past_group target_date (event future_row))
                    ''event_match''
             else None);
          best_match =
            (if best_match = None \<and> has_event_column
             then pick target_date (past_dow_matches 14 past_group target_date)
                    ''weekday_match_no_event''
             else best_match)
      in if best_match = None
         then (if \<not> has_event_column then Inl (KeyError ''event'')
               else (case pick target_date (past_dow_matches 21 past_group target_date)
                            ''weekday_match'' of
                       Some b \<Rightarrow> Inr (Some b)
                     | None \<Rightarrow>
                         Inr (pick target_date (closest_dates past_group target_date)
                                ''closest_date'')))
         else Inr best_match)"

definition copy_factor :: "string set \<Rightarrow> string \<Rightarrow> fl \<Rightarrow> fl option" where
  "copy_factor cols col v = (if col \<in> cols \<and> \<not> isna v then Some v else None)"

definition improved_row :: "string set \<Rightarrow> row list \<Rightarrow> row \<Rightarrow> int \<times> string \<Rightarrow> match_row" where
  "improved_row cols past_group future_row best =
     (let best_match_date = fst best;
          target_date = add_years (- 1) (date future_row);
          matching_row = hd (filter (\<lambda>r. date r = best_match_date) past_group)
      in \<lparr>m_multiunit_id = multiunit_id future_row,
          m_date = date future_row,
          matched_from = best_match_date,
          days_diff = \<bar>best_match_date - target_date\<bar>,
          is_improved_match = True,
          match_reason = snd best,
          m_price = (if ''price'' \<in> cols then Some (fl_scale (price matching_row) (103 / 100))
                     else None),
          m_base = copy_factor cols ''base'' (base matching_row),
          m_seasonality = copy_factor cols ''seasonality'' (seasonality matching_row),
          m_dow = copy_factor cols ''dow'' (dow matching_row),
          m_event = copy_factor cols ''event'' (event matching_row),
          event_match = None\<rparr>)"

fun for_future_rows ::
  "string set \<Rightarrow> row list \<Rightarrow> match_row list \<Rightarrow> row list \<Rightarrow> py_error + match_row list" where
  "for_future_rows cols past_group improved_matches [] = Inr improved_matches"
| "for_future_rows cols past_group improved_matches (future_row # rest) =
     (case find_best_match (''event'' \<in> cols) past_group future_row of
        Inl e \<Rightarrow> Inl e
      | Inr None \<Rightarrow> for_future_rows cols past_group improved_matches rest
      | Inr (Some best) \<Rightarrow>
          for_future_rows cols past_group
            (improved_matches @ [improved_row cols past_group future_row best]) rest)"

text \<open>
  The loop over \<open>target_dates.groupby('multiunit_id')\<close>: the keys in ascending order,
  each with its rows in their order in the frame.
\<close>

fun for_groups ::
  "string set \<Rightarrow> row list \<Rightarrow> row list \<Rightarrow> match_row list \<Rightarrow> nat list \<Rightarrow> py_error + match_row list" where
  "for_groups cols target_dates past_data improved_matches [] = Inr improved_matches"
| "for_groups cols target_dates past_data improved_matches (mid # mids) =
     (let future_group = filter (\<lambda>r. multiunit_id r = mid) target_dates;
          past_group = filter (\<lambda>r. multiunit_id r = mid) past_data
      in if past_group = []
         then for_groups cols target_dates past_data improved_matches mids
         else (case for_future_rows cols past_group improved_matches future_group of
                 Inl e \<Rightarrow> Inl e
               | Inr improved_matches' \<Rightarrow>
                   for_groups cols target_dates past_data improved_matches' mids))"

definition add_event_match :: "match_row \<Rightarrow> match_row" where
  "add_event_match m = m\<lparr>event_match := Some (match_reason m = ''event_match'')\<rparr>"

text \<open>
  The function returns the dataset it was given as it is when the call returns, and the
  rows of the result (no row for the empty \<open>pd.DataFrame()\<close>) or the exception that
  leaves the function.
\<close>

definition find_improved_matches :: "dataframe \<Rightarrow> dataframe \<times> (py_error + match_row list)" where
  "find_improved_matches df0 =
     (let df = convert_dates df0;
          target_dates = filter (\<lambda>r. date r \<ge> start_date \<and> date r \<le> end_date) (rows df)
      in if target_dates = [] then (df, Inr [])
         else (let past_data = filter (\<lambda>r. date r < past_date_limit) (rows df)
               in if past_data = [] then (df, Inr [])
                  else (case for_groups (columns df) target_dates past_data []
                               (sort (remdups (map multiunit_id target_dates))) of
                          Inl e \<Rightarrow> (df, Inl e)
                        | Inr improved_matches \<Rightarrow>
                            (df, Inr (if ''event'' \<in> columns df
                                      then map add_event_match improved_matches
                                      else improved_matches)))))"

section \<open>PriceAnalyzer.detect_seasonal_patterns\<close>

text \<open>
  \<open>frame.groupby(key)['price'].mean().reset_index()\<close>: one row per key, the keys in
  ascending order, with the mean of the prices of the rows of that key.
\<close>

definition groupby_mean :: "(row \<Rightarrow> 'k::linorder) \<Rightarrow> row list \<Rightarrow> ('k \<times> fl) list" where
  "groupby_mean key rs =
     map (\<lambda>k. (k, mean (map price (filter (\<lambda>r. key r = k) rs)))) (sort (remdups (map key rs)))"

text \<open>
  \<open>pd.merge(monthly_avg, property_avg, on='multiunit_id')\<close>: the inner join, in the
  order of the left frame.
\<close>

definition merge_on_multiunit_id ::
  "((nat \<times> int) \<times> fl) list \<Rightarrow> (nat \<times> fl) list \<Rightarrow> (nat \<times> int \<times> fl \<times> fl) list" where
  "merge_on_multiunit_id monthly_avg property_avg =
     concat (map (\<lambda>((mid, month), p).
                    map (\<lambda>(mid', avg). (mid, month, p, avg))
                        (filter (\<lambda>(mid', avg). mid' = mid) property_avg))
                 monthly_avg)"

record pattern_row =
  p_multiunit_id :: nat
  p_month :: int
  p_price :: fl
  avg_price :: fl
  seasonal_index :: fl
  is_peak_season :: bool
  is_low_season :: bool

definition pattern_of :: "nat \<times> int \<times> fl \<times> fl \<Rightarrow> pattern_row" where
  "pattern_of t =
     (case t of (mid, month, p, avg) \<Rightarrow>
        (let idx = fl_div p avg
         in \<lparr>p_multiunit_id = mid, p_month = month, p_price = p, avg_price = avg,
             seasonal_index = idx,
             is_peak_season = fl_gt idx (Num (11 / 10)),
             is_low_season = fl_lt idx (Num (9 / 10))\<rparr>))"

text \<open>
  The \<open>.dt\<close> accessor of line 117 raises on a date column that holds strings, the
  selection of \<open>price\<close> of line 121 raises when there is no such column. The quarterly
  averages of line 124 are not part of the result.
\<close>

definition detect_seasonal_patterns :: "dataframe \<Rightarrow> py_error + pattern_row list" where
  "detect_seasonal_patterns df =
     (if date_dtype df = Object then Inl AttributeError
      else if ''price'' \<notin> columns df then Inl (KeyError ''price'')
      else (let monthly_avg = groupby_mean (\<lambda>r. (multiunit_id r, month_of (date r))) (rows df);
                property_avg = groupby_mean multiunit_id (rows df);
                monthly_patterns = merge_on_multiunit_id monthly_avg property_avg
            in Inr (map pattern_of monthly_patterns)))"

section \<open>The specification's readings and sample datasets\<close>

text \<open>
  The total of a row as the specification words it: every factor that is missing, in
  the whole dataset or in this row only, counts as 0.
\<close>

definition missing_as_zero :: "dataframe \<Rightarrow> string \<Rightarrow> row \<Rightarrow> fl" where
  "missing_as_zero df col r =
     (if col \<in> columns df \<and> \<not> isna (get_factor col r) then get_factor col r else Num 0)"

definition total_missing_as_zero :: "dataframe \<Rightarrow> row \<Rightarrow> fl" where
  "total_missing_as_zero df r =
     fl_add (fl_add (fl_add (missing_as_zero df ''base'' r) (missing_as_zero df ''seasonality'' r))
               (missing_as_zero df ''dow'' r)) (missing_as_zero df ''event'' r)"

text \<open>The value of a factor where only a column absent from the whole dataset counts as 0.\<close>

definition factor_or_zero :: "dataframe \<Rightarrow> string \<Rightarrow> row \<Rightarrow> fl" where
  "factor_or_zero df col r = (if col \<in> columns df then get_factor col r else Num 0)"

definition with_defaults :: "string set \<Rightarrow> row \<Rightarrow> row" where
  "with_defaults cols r =
     r\<lparr>base := (if ''base'' \<in> cols then base r else Num 0),
       seasonality := (if ''seasonality'' \<in> cols then seasonality r else Num 0),
       dow := (if ''dow'' \<in> cols then dow r else Num 0),
       event := (if ''event'' \<in> cols then event r else Num 0)\<rparr>"

text \<open>An observed row: unit, day number, base, seasonality, dow, event, price.\<close>

definition observed :: "nat \<Rightarrow> int \<Rightarrow> fl \<Rightarrow> fl \<Rightarrow> fl \<Rightarrow> fl \<Rightarrow> fl \<Rightarrow> row" where
  "observed i d b s w e p =
     \<lparr>multiunit_id = i, date = d, base = b, seasonality = s, dow = w, event = e, price = p,
      total_price = NaN, is_extrapolated = None\<rparr>"

text \<open>One row of 2025-06-15 whose base factor is missing while the column exists.\<close>

definition frame_missing_base :: dataframe where
  "frame_missing_base =
     \<lparr>columns = {''base'', ''seasonality'', ''dow'', ''event'', ''price''}, date_dtype = Datetime64,
      rows = [observed 1 20254 NaN (Num 10) (Num 5) (Num 0) (Num 115)]\<rparr>"

text \<open>A dataset with no event column: unit 1 on 2024-06-15 and on 2025-06-15.\<close>

definition frame_no_event :: dataframe where
  "frame_no_event =
     \<lparr>columns = {''base'', ''seasonality'', ''dow'', ''price''}, date_dtype = Datetime64,
      rows = [observed 1 19889 (Num 100) (Num 10) (Num 5) NaN (Num 115),
              observed 1 20254 (Num 100) (Num 10) (Num 5) NaN NaN]\<rparr>"

text \<open>
  A synthesized record lies in the gap of its unit: it is flagged, its date is on or
  after the target start date and before every date the unit has in the dataset.
\<close>

definition in_gap :: "dataframe \<Rightarrow> new_row \<Rightarrow> bool" where
  "in_gap df nr =
     (nr_is_extrapolated nr \<and> target_start_date \<le> nr_date nr
      \<and> (\<forall>r \<in> set (rows df). multiunit_id r = nr_multiunit_id nr \<longrightarrow> nr_date nr < date r))"

text \<open>The rows of a result that are flagged as extrapolated (none when the call raised).\<close>

definition extrapolated_rows_of :: "py_error + dataframe \<Rightarrow> row list" where
  "extrapolated_rows_of res =
     (case res of Inl e \<Rightarrow> [] | Inr out \<Rightarrow> filter (\<lambda>r. is_extrapolated r = Some True) (rows out))"

text \<open>
  Unit 1 observed on 2024-01-02 and on 2025-01-08 (a Wednesday, without a price): the
  only missing date is 2024-01-01, whose date one year later is Wednesday 2025-01-01.
\<close>

definition frame_single_match :: dataframe where
  "frame_single_match =
     \<lparr>columns = {''base'', ''seasonality'', ''dow'', ''event'', ''price''}, date_dtype = Datetime64,
      rows = [observed 1 19724 (Num 100) (Num 10) (Num 5) (Num 0) (Num 115),
              observed 1 20096 (Num 100) (Num 10) (Num 5) (Num 0) NaN]\<rparr>"

text \<open>The same with a third observation on Wednesday 2025-01-15, and prices everywhere.\<close>

definition frame_two_matches :: dataframe where
  "frame_two_matches =
     \<lparr>columns = {''base'', ''seasonality'', ''dow'', ''event'', ''price''}, date_dtype = Datetime64,
      rows = [observed 1 19724 (Num 100) (Num 10) (Num 5) (Num 0) (Num 115),
              observed 1 20096 (Num 100) (Num 10) (Num 5) (Num 0) (Num 115),
              observed 1 20103 (Num 100) (Num 10) (Num 5) (Num 0) (Num 115)]\<rparr>"

text \<open>Unit 1 observed on 2024-01-02 only: nothing to copy from one year later.\<close>

definition frame_one_row :: dataframe where
  "frame_one_row =
     \<lparr>columns = {''base'', ''seasonality'', ''dow'', ''event'', ''price''}, date_dtype = Datetime64,
      rows = [observed 1 19724 (Num 100) (Num 10) (Num 5) (Num 0) (Num 115)]\<rparr>"

text \<open>Unit 1 observed on 2024-01-01 only: the dataset starts on the target start date.\<close>

definition frame_at_start :: dataframe where
  "frame_at_start =
     \<lparr>columns = {''base'', ''seasonality'', ''dow'', ''event'', ''price''}, date_dtype = Datetime64,
      rows = [observed 1 19723 (Num 100) (Num 10) (Num 5) (Num 0) (Num 115)]\<rparr>"

text \<open>
  Unit 1 with an event column: Saturday 2024-06-15 without event, Monday 2024-06-10 with
  an event factor of 50, and the target Sunday 2025-06-15 with an event factor of 40; one
  year before the target is 2024-06-15.
\<close>

definition frame_with_event :: dataframe where
  "frame_with_event =
     \<lparr>columns = {''base'', ''seasonality'', ''dow'', ''event'', ''price''}, date_dtype = Datetime64,
      rows = [observed 1 19889 (Num 100) (Num 10) (Num 5) (Num 0) (Num 115),
              observed 1 19884 (Num 100) (Num 10) (Num 5) (Num 50) (Num 165),
              observed 1 20254 (Num 100) (Num 10) (Num 5) (Num 40) NaN]\<rparr>"

text \<open>
  The rows a unit has before the past date limit, and the last step of
  \<open>find_improved_matches\<close> on a row of its result.
\<close>

definition past_group_of :: "dataframe \<Rightarrow> nat \<Rightarrow> row list" where
  "past_group_of df mid =
     filter (\<lambda>r. multiunit_id r = mid) (filter (\<lambda>r. date r < past_date_limit) (rows df))"

definition finished :: "dataframe \<Rightarrow> match_row \<Rightarrow> match_row" where
  "finished df m = (if ''event'' \<in> columns df then add_event_match m else m)"

text \<open>
  The means of the specification of the seasonal patterns: of the prices of a unit in a
  month, and of all the prices of a unit.
\<close>

definition monthly_mean :: "dataframe \<Rightarrow> nat \<Rightarrow> int \<Rightarrow> fl" where
  "monthly_mean df mid mo =
     mean (map price (filter (\<lambda>r. multiunit_id r = mid \<and> month_of (date r) = mo) (rows df)))"

definition overall_mean :: "dataframe \<Rightarrow> nat \<Rightarrow> fl" where
  "overall_mean df mid = mean (map price (filter (\<lambda>r. multiunit_id r = mid) (rows df)))"

text \<open>Unit 1 with the prices 100 and 140 in June 2024 and 60 in July 2025.\<close>

definition frame_two_months :: dataframe where
  "frame_two_months =
     \<lparr>columns = {''base'', ''seasonality'', ''dow'', ''event'', ''price''}, date_dtype = Datetime64,
      rows = [observed 1 19889 (Num 100) (Num 10) (Num 5) (Num 0) (Num 100),
              observed 1 19884 (Num 100) (Num 10) (Num 5) (Num 50) (Num 140),
              observed 1 20284 (Num 100) (Num 10) (Num 5) (Num 40) (Num 60)]\<rparr>"

text \<open>
  The scenario of the specification: unit 1 observed on every day from 2025-01-01 to
  2025-01-31 with base 100, seasonality 10, dow 5 and event 0.
\<close>

definition frame_january :: dataframe where
  "frame_january =
     \<lparr>columns = {''base'', ''seasonality'', ''dow'', ''event'', ''price''}, date_dtype = Datetime64,
      rows = map (\<lambda>d. observed 1 d (Num 100) (Num 10) (Num 5) (Num 0) (Num 115)) [20089 .. 20119]\<rparr>"

text \<open>
  The candidates of the four matching rules as the specification words them, among the
  historical records \<open>history\<close> of the unit of a target row \<open>t\<close>: within 14 days of the
  date one year before \<open>t\<close> with an event factor within 20 of that of \<open>t\<close>; within a
  window of days, on the weekday of that date, with an event factor missing or at most
  10; within 14 days. \<open>nearest\<close> says that \<open>d\<close> is the date of a candidate at the least
  distance in days from the target date.
\<close>

definition nearest :: "row set \<Rightarrow> int \<Rightarrow> int \<Rightarrow> bool" where
  "nearest candidates target_date d =
     (\<exists>e \<in> candidates. d = date e
         \<and> (\<forall>r \<in> candidates. \<bar>date e - target_date\<bar> \<le> \<bar>date r - target_date\<bar>))"

definition event_tier :: "row list \<Rightarrow> row \<Rightarrow> row set" where
  "event_tier history t =
     {c \<in> set history. \<bar>date c - add_years (- 1) (date t)\<bar> \<le> 14
                        \<and> fl_le (fl_abs (fl_sub (event c) (event t))) (Num 20)}"

definition weekday_tier :: "int \<Rightarrow> row list \<Rightarrow> row \<Rightarrow> row set" where
  "weekday_tier window history t =
     {c \<in> set history. \<bar>date c - add_years (- 1) (date t)\<bar> \<le> window
                        \<and> dayofweek (date c) = dayofweek (add_years (- 1) (date t))
                        \<and> (event c = NaN \<or> fl_le (event c) (Num 10))}"

definition closest_tier :: "row list \<Rightarrow> row \<Rightarrow> row set" where
  "closest_tier history t = {c \<in> set history. \<bar>date c - add_years (- 1) (date t)\<bar> \<le> 14}"

text \<open>The historical records of the unit of \<open>t\<close>: strictly before the past date limit.\<close>

definition history_of :: "dataframe \<Rightarrow> row \<Rightarrow> row list" where
  "history_of df t =
     filter (\<lambda>c. multiunit_id c = multiunit_id t \<and> date c < past_date_limit) (rows df)"

text \<open>
  The series of a unit in the order of its dates; its rows dated one year after a date
  \<open>d\<close>; and its rows on the weekday of that date and within 14 days of it.
\<close>

definition unit_series :: "dataframe \<Rightarrow> nat \<Rightarrow> row list" where
  "unit_series df mid = sort_key date (filter (\<lambda>r. multiunit_id r = mid) (rows df))"

definition next_year_rows :: "dataframe \<Rightarrow> nat \<Rightarrow> int \<Rightarrow> row list" where
  "next_year_rows df mid d = filter (\<lambda>r. date r = add_years 1 d) (unit_series df mid)"

definition weekday_rows :: "dataframe \<Rightarrow> nat \<Rightarrow> int \<Rightarrow> row list" where
  "weekday_rows df mid d =
     filter (\<lambda>r. dayofweek (date r) = dayofweek (add_years 1 d)
                \<and> add_years 1 d - 14 \<le> date r \<and> date r \<le> add_years 1 d + 14)
            (unit_series df mid)"

text \<open>A record that one pass of the inner loop of the extrapolation appended.\<close>

definition made_by_pass :: "dataframe \<Rightarrow> new_row \<Rightarrow> bool" where
  "made_by_pass df nr =
     (\<exists>st0 st1. process_missing_date (columns df) (unit_series df (nr_multiunit_id nr))
                   (nr_multiunit_id nr) st0 (nr_date nr) = Inr st1
               \<and> extrapolated_data st1 = extrapolated_data st0 @ [nr])"

text \<open>
  \<open>frame_single_match\<close> with a price on 2025-01-08; and a unit observed on 2024-01-02, on
  Wednesday 2025-01-01, on Thursday 2025-01-02 and on Wednesday 2025-01-08.
\<close>

definition frame_single_priced :: dataframe where
  "frame_single_priced =
     \<lparr>columns = {''base'', ''seasonality'', ''dow'', ''event'', ''price''}, date_dtype = Datetime64,
      rows = [observed 1 19724 (Num 100) (Num 10) (Num 5) (Num 0) (Num 115),
              observed 1 20096 (Num 100) (Num 10) (Num 5) (Num 0) (Num 115)]\<rparr>"

definition frame_full_factors :: dataframe where
  "frame_full_factors =
     \<lparr>columns = {''base'', ''seasonality'', ''dow'', ''event'', ''price''}, date_dtype = Datetime64,
      rows = [observed 1 19724 (Num 90) (Num 9) (Num 4) (Num 1) (Num 104),
              observed 1 20089 (Num 100) (Num 10) (Num 5) (Num 0) (Num 115),
              observed 1 20090 (Num 200) (Num 20) (Num 50) (Num 3) (Num 273),
              observed 1 20096 (Num 100) (Num 10) (Num 7) (Num 0) (Num 117)]\<rparr>"

section \<open>PriceAggregator: the total is the sum of the factors\<close>

lemma fl_add_NaN_right [simp]: "fl_add a NaN = NaN"
  by (cases a) simp_all

lemma rows_default_columns:
  "rows (foldl default_column df factor_columns) = map (with_defaults (columns df)) (rows df)"
  by (auto simp add: factor_columns_def default_column_def with_defaults_def set_factor_def
      intro!: nth_equalityI)

lemma rows_calculate_total_price:
  "rows (snd (calculate_total_price df)) =
     map (\<lambda>r. (with_defaults (columns df) r)\<lparr>total_price := sum_factors (with_defaults (columns df) r)\<rparr>)
         (rows df)"
  by (simp add: calculate_total_price_def Let_def rows_default_columns)

text \<open>
  C1, as stated, fails: in \<open>frame_missing_base\<close> the base factor of the row is missing
  while the column exists, and the total of the row is missing, not the sum with 0 for
  the base.
\<close>

theorem total_price_counterexample:
  "map total_price (rows (snd (calculate_total_price frame_missing_base)))
     \<noteq> map (total_missing_as_zero frame_missing_base) (rows frame_missing_base)"
  by (simp add: rows_calculate_total_price frame_missing_base_def observed_def with_defaults_def
      sum_factors_def total_missing_as_zero_def missing_as_zero_def get_factor_def isna_def)

text \<open>
  C1, amended: the result has one row per input row, and the \<open>total_price\<close> of each is
  the sum base + seasonality + dow + event of that row, where a factor whose column is
  absent from the whole dataset counts as 0; a factor that is missing in a row of a
  column that exists makes the total of that row missing.
\<close>

theorem total_price_sum_of_factors:
  assumes "i < length (rows df)"
  shows "length (rows (snd (calculate_total_price df))) = length (rows df)
       \<and> total_price (rows (snd (calculate_total_price df)) ! i) =
           fl_add (fl_add (fl_add (factor_or_zero df ''base'' (rows df ! i))
                                  (factor_or_zero df ''seasonality'' (rows df ! i)))
                          (factor_or_zero df ''dow'' (rows df ! i)))
                  (factor_or_zero df ''event'' (rows df ! i))
       \<and> ((\<exists>col \<in> set factor_columns. col \<in> columns df \<and> isna (get_factor col (rows df ! i)))
            \<longrightarrow> isna (total_price (rows (snd (calculate_total_price df)) ! i)))"
  using assms
  by (auto simp add: rows_calculate_total_price sum_factors_def with_defaults_def factor_or_zero_def
      get_factor_def isna_def factor_columns_def)

theorem total_price_sum_of_factors_witness:
  "(0::nat) < length (rows frame_no_event)
   \<and> total_price (rows (snd (calculate_total_price frame_no_event)) ! 0) = Num 115"
  using total_price_sum_of_factors [of 0 frame_no_event]
  by (simp add: frame_no_event_def observed_def factor_or_zero_def get_factor_def)

section \<open>BackwardExtrapolator\<close>


lemma target_start_date_value: "target_start_date = 19723"
  by (simp add: target_start_date_def days_from_civil_def)

lemma try_block_keeps_key:
  assumes "try_block cols swd fd nr cd = (Inr nr', cd')"
  shows "nr_date nr' = nr_date nr \<and> nr_multiunit_id nr' = nr_multiunit_id nr
       \<and> nr_is_extrapolated nr' = nr_is_extrapolated nr"
  using assms
  by (auto simp add: try_block_def Let_def split: if_splits option.splits)

lemma process_missing_date_appends:
  assumes "process_missing_date cols grp mid st d = Inr st'"
  shows "extrapolated_data st' = extrapolated_data st
       \<or> (\<exists>nr. extrapolated_data st' = extrapolated_data st @ [nr] \<and> nr_date nr = d
              \<and> nr_multiunit_id nr = mid \<and> nr_is_extrapolated nr)"
  using assms
  by (auto simp add: process_missing_date_def Let_def
      split: if_splits prod.splits sum.splits dest!: try_block_keeps_key)

lemma for_missing_dates_appends:
  assumes "for_missing_dates cols grp mid st ds = Inr st'"
  shows "\<exists>new. extrapolated_data st' = extrapolated_data st @ new
             \<and> (\<forall>nr \<in> set new. nr_date nr \<in> set ds \<and> nr_multiunit_id nr = mid
                    \<and> nr_is_extrapolated nr)"
  using assms
proof (induction ds arbitrary: st)
  case Nil
  then show ?case by simp
next
  case (Cons d ds)
  from Cons.prems obtain st1 where
    step: "process_missing_date cols grp mid st d = Inr st1" and
    rest: "for_missing_dates cols grp mid st1 ds = Inr st'"
    by (auto split: sum.splits)
  from Cons.IH [OF rest] obtain new where
    new: "extrapolated_data st' = extrapolated_data st1 @ new"
         "\<forall>nr \<in> set new. nr_date nr \<in> set ds \<and> nr_multiunit_id nr = mid \<and> nr_is_extrapolated nr"
    by blast
  from process_missing_date_appends [OF step] show ?case
  proof
    assume "extrapolated_data st1 = extrapolated_data st"
    with new show ?thesis by auto
  next
    assume "\<exists>nr. extrapolated_data st1 = extrapolated_data st @ [nr] \<and> nr_date nr = d
              \<and> nr_multiunit_id nr = mid \<and> nr_is_extrapolated nr"
    then obtain nr where nr: "extrapolated_data st1 = extrapolated_data st @ [nr]"
      "nr_date nr = d" "nr_multiunit_id nr = mid" "nr_is_extrapolated nr"
      by blast
    have "extrapolated_data st' = extrapolated_data st @ (nr # new)"
      using new(1) nr(1) by simp
    moreover have "\<forall>x \<in> set (nr # new). nr_date x \<in> set (d # ds) \<and> nr_multiunit_id x = mid
                    \<and> nr_is_extrapolated x"
      using new(2) nr by auto
    ultimately show ?thesis by blast
  qed
qed

lemma min_date_None [simp]: "min_date rs = None \<longleftrightarrow> rs = []"
  by (cases rs) (auto split: option.splits)

lemma min_date_lower:
  assumes "min_date rs = Some m" and "r \<in> set rs"
  shows "m \<le> date r"
  using assms
  by (induction rs arbitrary: m) (auto split: option.splits)

lemma process_multiunit_in_gap:
  assumes "process_multiunit df st mid = Inr st'"
    and "\<forall>nr \<in> set (extrapolated_data st). in_gap df nr"
  shows "\<forall>nr \<in> set (extrapolated_data st'). in_gap df nr"
proof (cases "min_date (sort_key date (filter (\<lambda>r. multiunit_id r = mid) (rows df)))")
  case None
  with assms show ?thesis by (simp add: process_multiunit_def)
next
  case (Some e)
  show ?thesis
  proof (cases "e > target_start_date")
    case False
    with Some assms show ?thesis by (simp add: process_multiunit_def)
  next
    case True
    with Some assms(1) have loop:
      "for_missing_dates (columns df) (sort_key date (filter (\<lambda>r. multiunit_id r = mid) (rows df)))
         mid st [target_start_date .. e - 1] = Inr st'"
      by (simp add: process_multiunit_def)
    from for_missing_dates_appends [OF loop] obtain new where
      new: "extrapolated_data st' = extrapolated_data st @ new"
           "\<forall>nr \<in> set new. nr_date nr \<in> set [target_start_date .. e - 1]
               \<and> nr_multiunit_id nr = mid \<and> nr_is_extrapolated nr"
      by blast
    have early: "e \<le> date r" if "r \<in> set (rows df)" "multiunit_id r = mid" for r
      using min_date_lower [OF Some, of r] that by simp
    have "in_gap df nr" if "nr \<in> set new" for nr
      using new(2) that early by (fastforce simp add: in_gap_def)
    with new(1) assms(2) show ?thesis by auto
  qed
qed

lemma for_multiunits_in_gap:
  assumes "for_multiunits df st mids = Inr st'"
    and "\<forall>nr \<in> set (extrapolated_data st). in_gap df nr"
  shows "\<forall>nr \<in> set (extrapolated_data st'). in_gap df nr"
  using assms
proof (induction mids arbitrary: st)
  case Nil
  then show ?case by simp
next
  case (Cons mid mids)
  from Cons.prems(1) obtain st1 where
    step: "process_multiunit df st mid = Inr st1" and
    rest: "for_multiunits df st1 mids = Inr st'"
    by (auto split: sum.splits)
  from process_multiunit_in_gap [OF step Cons.prems(2)] Cons.IH [OF rest]
  show ?case by blast
qed


lemma in_gap_all:
  assumes "for_multiunits df initial_state mids = Inr st"
  shows "\<forall>nr \<in> set (extrapolated_data st). in_gap df nr"
  using for_multiunits_in_gap [OF assms] by (simp add: initial_state_def)

lemma rows_convert_dates [simp]: "rows (convert_dates df) = rows df"
  by (simp add: convert_dates_def)

lemma columns_convert_dates [simp]: "columns (convert_dates df) = columns df"
  by (simp add: convert_dates_def)

lemma in_gap_convert_dates [simp]: "in_gap (convert_dates df) nr = in_gap df nr"
  by (simp add: in_gap_def)

lemma key_blank_absent [simp]:
  "multiunit_id (blank_absent cols r) = multiunit_id r" "date (blank_absent cols r) = date r"
  by (simp_all add: blank_absent_def)

lemma key_fill_flag [simp]:
  "multiunit_id (fill_flag r) = multiunit_id r" "date (fill_flag r) = date r"
  by (simp_all add: fill_flag_def)

lemma fill_flag_to_row [simp]: "fill_flag (to_row nr) = to_row nr"
  by (simp add: fill_flag_def to_row_def)

lemma mset_rows_combine:
  "mset (rows (combine df nrs)) =
     mset (map (if ''is_extrapolated'' \<notin> columns df then fill_flag \<circ> blank_absent (columns df)
                else blank_absent (columns df)) (rows df))
     + mset (map to_row nrs)"
  by (simp add: combine_def Let_def comp_def)

text \<open>
  C3, amended: the rows of a result are the rows of the input (same unit and date each)
  and the synthesized records, and every synthesized record is flagged, has a date on
  or after the target start date 2024-01-01 (not before it) and a date strictly before
  every date its unit has in the input.
\<close>

theorem extrapolated_in_gap:
  assumes "snd (extrapolate_prices_backward df) = Inr out"
  shows "\<exists>originals synthesized.
           mset (rows out) = mset originals + mset (map to_row synthesized)
         \<and> map multiunit_id originals = map multiunit_id (rows df)
         \<and> map date originals = map date (rows df)
         \<and> (\<forall>nr \<in> set synthesized. in_gap df nr)"
proof (cases "earliest_not_after (min_date (rows df)) target_start_date")
  case True
  with assms have "out = convert_dates df"
    by (simp add: extrapolate_prices_backward_def Let_def)
  then have "mset (rows out) = mset (rows df) + mset (map to_row [])" by simp
  then show ?thesis by (metis empty_iff list.set(1))
next
  case False
  with assms obtain st where
    loops: "for_multiunits (convert_dates df) initial_state (unique (map multiunit_id (rows df))) = Inr st"
    and res: "out = (if extrapolated_data st \<noteq> []
                     then combine (convert_dates df) (extrapolated_data st)
                     else add_flag_column (convert_dates df))"
    by (auto simp add: extrapolate_prices_backward_def Let_def split: sum.splits if_splits)
  from in_gap_all [OF loops] have gap: "\<forall>nr \<in> set (extrapolated_data st). in_gap df nr"
    by simp
  show ?thesis
  proof (cases "extrapolated_data st = []")
    case True
    with res have "mset (rows out) = mset (rows (add_flag_column (convert_dates df))) + mset (map to_row [])"
      by simp
    moreover have "map multiunit_id (rows (add_flag_column (convert_dates df))) = map multiunit_id (rows df)"
      "map date (rows (add_flag_column (convert_dates df))) = map date (rows df)"
      by (simp_all add: add_flag_column_def comp_def)
    ultimately show ?thesis by (metis empty_iff list.set(1))
  next
    case False
    let ?f = "if ''is_extrapolated'' \<notin> columns df then fill_flag \<circ> blank_absent (columns df)
              else blank_absent (columns df)"
    from False res have "mset (rows out) = mset (map ?f (rows df)) + mset (map to_row (extrapolated_data st))"
      using mset_rows_combine [of "convert_dates df" "extrapolated_data st"] by simp
    moreover have "map multiunit_id (map ?f (rows df)) = map multiunit_id (rows df)"
      "map date (map ?f (rows df)) = map date (rows df)"
      by (simp_all add: comp_def)
    ultimately show ?thesis using gap by blast
  qed
qed








lemma closest_row_single [simp]: "closest_row t [m] = Some m"
  by simp

theorem extrapolated_in_gap_witness:
  "snd (extrapolate_prices_backward frame_single_match)
     = Inr (projr (snd (extrapolate_prices_backward frame_single_match)))
   \<and> (\<exists>originals synthesized.
           mset (rows (projr (snd (extrapolate_prices_backward frame_single_match))))
             = mset originals + mset (map to_row synthesized)
         \<and> map multiunit_id originals = map multiunit_id (rows frame_single_match)
         \<and> map date originals = map date (rows frame_single_match)
         \<and> (\<forall>nr \<in> set synthesized. in_gap frame_single_match nr))"
proof -
  have "isl (snd (extrapolate_prices_backward frame_single_match)) = False"
    by code_simp
  then have h: "snd (extrapolate_prices_backward frame_single_match)
     = Inr (projr (snd (extrapolate_prices_backward frame_single_match)))"
    by (cases "snd (extrapolate_prices_backward frame_single_match)") simp_all
  from h extrapolated_in_gap [OF h] show ?thesis by blast
qed

lemma set_unique [simp]: "set (unique xs) = set xs"
  by (induction xs) auto

lemma min_date_attained:
  assumes "min_date rs = Some m"
  shows "\<exists>r \<in> set rs. date r = m"
  using assms
proof (induction rs arbitrary: m)
  case Nil
  then show ?case by simp
next
  case (Cons x xs)
  show ?case
  proof (cases "min_date xs")
    case None
    with Cons.prems show ?thesis by simp
  next
    case (Some b)
    from Cons.IH [OF Some] obtain r where "r \<in> set xs" "date r = b" by blast
    with Cons.prems Some show ?thesis
      by (cases "date x \<le> b") (auto simp add: min_def)
  qed
qed

text \<open>The row a pass of the inner loop appends.\<close>

lemma process_missing_date_emits:
  fixes cols grp mid d
  defines "f \<equiv> add_years 1 d"
  defines "efm \<equiv> filter (\<lambda>r. date r = f) grp"
  defines "swd \<equiv> filter (\<lambda>r. dayofweek (date r) = dayofweek f \<and> f - 14 \<le> date r \<and> date r \<le> f + 14) grp"
  assumes "swd \<noteq> []" and "''dow'' \<in> cols"
    and "length swd = 1 \<or> (efm \<noteq> [] \<and> ''event'' \<in> cols \<and> ''seasonality'' \<in> cols \<and> ''base'' \<in> cols)"
  shows "process_missing_date cols grp mid st d =
     Inr (st\<lparr>extrapolated_data := extrapolated_data st @
            [\<lparr>nr_multiunit_id = mid, nr_date = d, nr_is_extrapolated = True,
              nr_event = (if efm \<noteq> [] \<and> ''event'' \<in> cols then Some (event (hd efm)) else None),
              nr_seasonality = (if efm \<noteq> [] \<and> ''seasonality'' \<in> cols
                                then Some (seasonality (hd efm)) else None),
              nr_base = (if efm \<noteq> [] \<and> ''base'' \<in> cols then Some (base (hd efm)) else None),
              nr_dow = Some (if length swd \<ge> 2 then mean (map dow swd) else dow (hd swd)),
              nr_price =
                (if efm \<noteq> [] \<and> ''event'' \<in> cols \<and> ''seasonality'' \<in> cols \<and> ''base'' \<in> cols
                 then Some (fl_scale (fl_add (fl_add (fl_add (base (hd efm)) (seasonality (hd efm)))
                                        (if length swd \<ge> 2 then mean (map dow swd) else dow (hd swd)))
                                        (event (hd efm))) (97 / 100))
                 else if ''price'' \<in> cols \<and> price (hd swd) \<noteq> NaN
                 then Some (fl_scale (price (hd swd)) (97 / 100))
                 else None)\<rparr>],
          closest_date := (if length swd \<ge> 2 then closest_date st else Some (hd swd))\<rparr>)"
proof -
  have swd: "same_weekday_dates_of grp (add_years 1 d) = swd"
    by (simp add: same_weekday_dates_of_def swd_def f_def)
  let ?nr0 = "\<lparr>nr_multiunit_id = mid, nr_date = d, nr_is_extrapolated = True,
               nr_event = (if efm \<noteq> [] \<and> ''event'' \<in> cols then Some (event (hd efm)) else None),
               nr_seasonality = (if efm \<noteq> [] \<and> ''seasonality'' \<in> cols
                                 then Some (seasonality (hd efm)) else None),
               nr_base = (if efm \<noteq> [] \<and> ''base'' \<in> cols then Some (base (hd efm)) else None),
               nr_dow = None, nr_price = None\<rparr>"
  let ?dow = "if length swd \<ge> 2 then mean (map dow swd) else dow (hd swd)"
  let ?price = "if efm \<noteq> [] \<and> ''event'' \<in> cols \<and> ''seasonality'' \<in> cols \<and> ''base'' \<in> cols
                 then Some (fl_scale (fl_add (fl_add (fl_add (base (hd efm)) (seasonality (hd efm)))
                                        ?dow) (event (hd efm))) (97 / 100))
                 else if ''price'' \<in> cols \<and> price (hd swd) \<noteq> NaN
                 then Some (fl_scale (price (hd swd)) (97 / 100))
                 else None"
  have step: "process_missing_date cols grp mid st d =
     (case try_block cols swd (add_years 1 d) ?nr0 (closest_date st) of
        (Inr nr, cd) \<Rightarrow>
          Inr (st\<lparr>extrapolated_data := extrapolated_data st @ [nr], closest_date := cd\<rparr>)
      | (Inl e, cd) \<Rightarrow>
          if caught e
          then Inr (st\<lparr>closest_date := cd, warnings := warnings st @ [d]\<rparr>)
          else Inl e)"
    using assms(4,5) unfolding efm_def f_def
    by (simp add: process_missing_date_def Let_def swd)
  have tb: "try_block cols swd (add_years 1 d) ?nr0 (closest_date st) =
      (Inr (?nr0\<lparr>nr_dow := Some ?dow, nr_price := ?price\<rparr>),
       if length swd \<ge> 2 then closest_date st else Some (hd swd))"
  proof (cases "length swd \<ge> 2")
    case True
    with assms(6) have full: "efm \<noteq> []" "''event'' \<in> cols" "''seasonality'' \<in> cols" "''base'' \<in> cols"
      by auto
    show ?thesis
      using True full
      by (simp add: try_block_def Let_def all_factors_present_def factor_price_def)
  next
    case False
    with assms(4) obtain m where m: "swd = [m]"
      by (cases swd) (auto simp add: not_le less_Suc_eq)
    show ?thesis
      unfolding m
      by (simp add: try_block_def Let_def all_factors_present_def factor_price_def isna_def)
  qed
  show ?thesis
    unfolding step tb by simp
qed

lemma process_missing_date_made:
  assumes "process_missing_date cols grp mid st d = Inr st'"
  shows "extrapolated_data st' = extrapolated_data st
       \<or> (\<exists>nr. extrapolated_data st' = extrapolated_data st @ [nr] \<and> nr_date nr = d
              \<and> nr_multiunit_id nr = mid)"
  using process_missing_date_appends [OF assms] by blast

lemma for_missing_dates_made:
  assumes "for_missing_dates cols grp mid st ds = Inr st'"
    and "nr \<in> set (extrapolated_data st')"
  shows "nr \<in> set (extrapolated_data st)
       \<or> (nr_multiunit_id nr = mid
          \<and> (\<exists>st0 st1. process_missing_date cols grp mid st0 (nr_date nr) = Inr st1
                 \<and> extrapolated_data st1 = extrapolated_data st0 @ [nr]))"
  using assms
proof (induction ds arbitrary: st)
  case Nil
  then show ?case by simp
next
  case (Cons d ds)
  from Cons.prems(1) obtain st1 where
    step: "process_missing_date cols grp mid st d = Inr st1" and
    rest: "for_missing_dates cols grp mid st1 ds = Inr st'"
    by (auto split: sum.splits)
  from Cons.IH [OF rest Cons.prems(2)] show ?case
  proof
    assume in1: "nr \<in> set (extrapolated_data st1)"
    from process_missing_date_made [OF step] show ?thesis
    proof
      assume "extrapolated_data st1 = extrapolated_data st"
      with in1 show ?thesis by simp
    next
      assume "\<exists>x. extrapolated_data st1 = extrapolated_data st @ [x] \<and> nr_date x = d
                \<and> nr_multiunit_id x = mid"
      then obtain x where x: "extrapolated_data st1 = extrapolated_data st @ [x]"
        "nr_date x = d" "nr_multiunit_id x = mid"
        by blast
      show ?thesis
      proof (cases "nr = x")
        case True
        with x step show ?thesis by blast
      next
        case False
        with in1 x(1) show ?thesis by simp
      qed
    qed
  next
    assume "nr_multiunit_id nr = mid
          \<and> (\<exists>st0 st1. process_missing_date cols grp mid st0 (nr_date nr) = Inr st1
                 \<and> extrapolated_data st1 = extrapolated_data st0 @ [nr])"
    then show ?thesis by simp
  qed
qed

lemma process_multiunit_made:
  assumes "process_multiunit df st mid = Inr st'"
    and "nr \<in> set (extrapolated_data st')"
  shows "nr \<in> set (extrapolated_data st) \<or> made_by_pass df nr"
proof (cases "min_date (unit_series df mid)")
  case None
  with assms show ?thesis by (simp add: process_multiunit_def unit_series_def)
next
  case (Some e)
  show ?thesis
  proof (cases "e > target_start_date")
    case False
    with Some assms show ?thesis by (simp add: process_multiunit_def unit_series_def)
  next
    case True
    with Some assms(1) have loop:
      "for_missing_dates (columns df) (unit_series df mid) mid st [target_start_date .. e - 1] = Inr st'"
      by (simp add: process_multiunit_def unit_series_def)
    from for_missing_dates_made [OF loop assms(2)] show ?thesis
      by (auto simp add: made_by_pass_def)
  qed
qed

lemma for_multiunits_made:
  assumes "for_multiunits df st mids = Inr st'"
    and "\<forall>nr \<in> set (extrapolated_data st). made_by_pass df nr"
  shows "\<forall>nr \<in> set (extrapolated_data st'). made_by_pass df nr"
  using assms
proof (induction mids arbitrary: st)
  case Nil
  then show ?case by simp
next
  case (Cons mid mids)
  from Cons.prems(1) obtain st1 where
    step: "process_multiunit df st mid = Inr st1" and
    rest: "for_multiunits df st1 mids = Inr st'"
    by (auto split: sum.splits)
  have "\<forall>nr \<in> set (extrapolated_data st1). made_by_pass df nr"
    using process_multiunit_made [OF step] Cons.prems(2) by blast
  from Cons.IH [OF rest this] show ?case .
qed

lemma for_missing_dates_grows:
  assumes "for_missing_dates cols grp mid st ds = Inr st'"
  shows "set (extrapolated_data st) \<subseteq> set (extrapolated_data st')"
  using for_missing_dates_appends [OF assms] by auto

lemma for_missing_dates_runs:
  assumes "for_missing_dates cols grp mid st ds = Inr st'" and "d \<in> set ds"
  shows "\<exists>sa sb. process_missing_date cols grp mid sa d = Inr sb
            \<and> set (extrapolated_data sb) \<subseteq> set (extrapolated_data st')"
  using assms
proof (induction ds arbitrary: st)
  case Nil
  then show ?case by simp
next
  case (Cons x ds)
  from Cons.prems(1) obtain st1 where
    step: "process_missing_date cols grp mid st x = Inr st1" and
    rest: "for_missing_dates cols grp mid st1 ds = Inr st'"
    by (auto split: sum.splits)
  show ?case
  proof (cases "d = x")
    case True
    with step for_missing_dates_grows [OF rest] show ?thesis by blast
  next
    case False
    with Cons.prems(2) have "d \<in> set ds" by simp
    from Cons.IH [OF rest this] show ?thesis .
  qed
qed

lemma process_multiunit_grows:
  assumes "process_multiunit df st mid = Inr st'"
  shows "set (extrapolated_data st) \<subseteq> set (extrapolated_data st')"
  using assms for_missing_dates_grows
  by (auto simp add: process_multiunit_def Let_def split: option.splits if_splits)

lemma for_multiunits_grows:
  assumes "for_multiunits df st mids = Inr st'"
  shows "set (extrapolated_data st) \<subseteq> set (extrapolated_data st')"
  using assms
proof (induction mids arbitrary: st)
  case Nil
  then show ?case by simp
next
  case (Cons mid mids)
  from Cons.prems obtain st1 where
    step: "process_multiunit df st mid = Inr st1" and
    rest: "for_multiunits df st1 mids = Inr st'"
    by (auto split: sum.splits)
  from process_multiunit_grows [OF step] Cons.IH [OF rest] show ?case by blast
qed

lemma process_multiunit_runs:
  assumes "process_multiunit df st mid = Inr st'"
    and "r \<in> set (rows df)" and "multiunit_id r = mid"
    and "target_start_date \<le> d"
    and "\<forall>r \<in> set (rows df). multiunit_id r = mid \<longrightarrow> d < date r"
  shows "\<exists>sa sb. process_missing_date (columns df) (unit_series df mid) mid sa d = Inr sb
            \<and> set (extrapolated_data sb) \<subseteq> set (extrapolated_data st')"
proof -
  have "r \<in> set (unit_series df mid)"
    using assms(2,3) by (simp add: unit_series_def)
  then have ne: "unit_series df mid \<noteq> []"
    by auto
  then obtain e where e: "min_date (unit_series df mid) = Some e"
    by (cases "min_date (unit_series df mid)") auto
  from min_date_attained [OF e] obtain x where "x \<in> set (rows df)" "multiunit_id x = mid" "date x = e"
    by (auto simp add: unit_series_def)
  with assms(5) have "d < e" by blast
  with assms(4) have late: "e > target_start_date" and d: "d \<in> set [target_start_date .. e - 1]"
    by simp_all
  from assms(1) e late have loop:
    "for_missing_dates (columns df) (unit_series df mid) mid st [target_start_date .. e - 1] = Inr st'"
    by (simp add: process_multiunit_def unit_series_def)
  from for_missing_dates_runs [OF loop d] show ?thesis .
qed

lemma for_multiunits_runs:
  assumes "for_multiunits df st mids = Inr st'" and "mid \<in> set mids"
    and "r \<in> set (rows df)" and "multiunit_id r = mid"
    and "target_start_date \<le> d"
    and "\<forall>r \<in> set (rows df). multiunit_id r = mid \<longrightarrow> d < date r"
  shows "\<exists>sa sb. process_missing_date (columns df) (unit_series df mid) mid sa d = Inr sb
            \<and> set (extrapolated_data sb) \<subseteq> set (extrapolated_data st')"
  using assms(1,2)
proof (induction mids arbitrary: st)
  case Nil
  then show ?case by simp
next
  case (Cons x mids)
  from Cons.prems(1) obtain st1 where
    step: "process_multiunit df st x = Inr st1" and
    rest: "for_multiunits df st1 mids = Inr st'"
    by (auto split: sum.splits)
  show ?case
  proof (cases "mid = x")
    case True
    from process_multiunit_runs [OF step [folded True] assms(3,4,5,6)] for_multiunits_grows [OF rest]
    show ?thesis by blast
  next
    case False
    with Cons.prems(2) have "mid \<in> set mids" by simp
    from Cons.IH [OF rest this] show ?thesis .
  qed
qed

lemma unit_series_convert_dates [simp]: "unit_series (convert_dates df) mid = unit_series df mid"
  by (simp add: unit_series_def)

lemma made_by_pass_convert_dates [simp]: "made_by_pass (convert_dates df) nr = made_by_pass df nr"
  by (simp add: made_by_pass_def)

lemma set_rows_combine:
  "set (rows (combine df nrs)) =
     (if ''is_extrapolated'' \<notin> columns df then fill_flag \<circ> blank_absent (columns df)
      else blank_absent (columns df)) ` set (rows df)
     \<union> to_row ` set nrs"
proof -
  have "set (rows (combine df nrs)) = set_mset (mset (rows (combine df nrs)))"
    by simp
  also have "\<dots> = (if ''is_extrapolated'' \<notin> columns df then fill_flag \<circ> blank_absent (columns df)
      else blank_absent (columns df)) ` set (rows df) \<union> to_row ` set nrs"
    unfolding mset_rows_combine by simp
  finally show ?thesis .
qed

text \<open>
  C5, amended: on a dataset whose dates are all after the target start date, with a
  \<open>dow\<close> column, and on which the call returns: for a unit \<open>mid\<close> of the dataset and a
  date \<open>d\<close> from the target start date on and before every date of the unit, when the
  search for the same weekday is not empty and finds exactly one row or the factors
  base, seasonality and event can all be copied from the date one year later, the result
  has a record for \<open>mid\<close> and \<open>d\<close>, and every such record is flagged as extrapolated, with
  the dow factor of the one row found (the mean of the dow factors when two or more are
  found) and with the price: the sum of the four factors times 0.97 when the three were
  copied, else the price of the one row found times 0.97 when that price is not missing,
  and else no price. The record is in the result all the same.
\<close>

theorem extrapolated_record_price:
  assumes "snd (extrapolate_prices_backward df) = Inr out"
    and "\<forall>r \<in> set (rows df). target_start_date < date r"
    and "''dow'' \<in> columns df"
    and "u \<in> set (rows df)" and "multiunit_id u = mid"
    and "target_start_date \<le> d"
    and "\<forall>r \<in> set (rows df). multiunit_id r = mid \<longrightarrow> d < date r"
    and "weekday_rows df mid d \<noteq> []"
    and "length (weekday_rows df mid d) = 1
         \<or> (next_year_rows df mid d \<noteq> [] \<and> ''event'' \<in> columns df
            \<and> ''seasonality'' \<in> columns df \<and> ''base'' \<in> columns df)"
  shows "(\<exists>r \<in> set (rows out). multiunit_id r = mid \<and> date r = d)
       \<and> (\<forall>r \<in> set (rows out). multiunit_id r = mid \<and> date r = d \<longrightarrow>
             is_extrapolated r = Some True
           \<and> dow r = (if length (weekday_rows df mid d) \<ge> 2
                       then mean (map dow (weekday_rows df mid d))
                       else dow (hd (weekday_rows df mid d)))
           \<and> price r =
               (if next_year_rows df mid d \<noteq> [] \<and> ''event'' \<in> columns df
                   \<and> ''seasonality'' \<in> columns df \<and> ''base'' \<in> columns df
                then fl_scale
                       (fl_add
                          (fl_add
                             (fl_add (base (hd (next_year_rows df mid d)))
                                     (seasonality (hd (next_year_rows df mid d))))
                             (if length (weekday_rows df mid d) \<ge> 2
                              then mean (map dow (weekday_rows df mid d))
                              else dow (hd (weekday_rows df mid d))))
                          (event (hd (next_year_rows df mid d))))
                       (97 / 100)
                else if ''price'' \<in> columns df \<and> price (hd (weekday_rows df mid d)) \<noteq> NaN
                then fl_scale (price (hd (weekday_rows df mid d))) (97 / 100)
                else NaN))"
proof -
  let ?W = "weekday_rows df mid d"
  let ?X = "next_year_rows df mid d"
  let ?dow = "if length ?W \<ge> 2 then mean (map dow ?W) else dow (hd ?W)"
  let ?full = "?X \<noteq> [] \<and> ''event'' \<in> columns df \<and> ''seasonality'' \<in> columns df
               \<and> ''base'' \<in> columns df"
  let ?NR = "\<lparr>nr_multiunit_id = mid, nr_date = d, nr_is_extrapolated = True,
              nr_event = (if ?X \<noteq> [] \<and> ''event'' \<in> columns df then Some (event (hd ?X)) else None),
              nr_seasonality = (if ?X \<noteq> [] \<and> ''seasonality'' \<in> columns df
                                then Some (seasonality (hd ?X)) else None),
              nr_base = (if ?X \<noteq> [] \<and> ''base'' \<in> columns df then Some (base (hd ?X)) else None),
              nr_dow = Some ?dow,
              nr_price =
                (if ?full
                 then Some (fl_scale (fl_add (fl_add (fl_add (base (hd ?X)) (seasonality (hd ?X)))
                                        ?dow) (event (hd ?X))) (97 / 100))
                 else if ''price'' \<in> columns df \<and> price (hd ?W) \<noteq> NaN
                 then Some (fl_scale (price (hd ?W)) (97 / 100))
                 else None)\<rparr>"
  have pass: "extrapolated_data sb = extrapolated_data sa @ [?NR]"
    if "process_missing_date (columns df) (unit_series df mid) mid sa d = Inr sb" for sa sb
    using that process_missing_date_emits [where grp = "unit_series df mid" and d = d
        and cols = "columns df" and mid = mid and st = sa]
      assms(3,8,9)
    unfolding weekday_rows_def next_year_rows_def by auto
  have "rows df \<noteq> []" using assms(4) by auto
  then obtain e where e: "min_date (rows df) = Some e"
    by (cases "min_date (rows df)") auto
  from min_date_attained [OF e] assms(2) have "target_start_date < e" by auto
  with e have late: "\<not> earliest_not_after (min_date (rows df)) target_start_date"
    by (simp add: earliest_not_after_def)
  with assms(1) obtain st where
    loops: "for_multiunits (convert_dates df) initial_state (unique (map multiunit_id (rows df))) = Inr st"
    and res: "out = (if extrapolated_data st \<noteq> []
                     then combine (convert_dates df) (extrapolated_data st)
                     else add_flag_column (convert_dates df))"
    by (auto simp add: extrapolate_prices_backward_def Let_def split: sum.splits if_splits)
  have mid: "mid \<in> set (unique (map multiunit_id (rows df)))"
    using assms(4,5) by auto
  from for_multiunits_runs [OF loops mid, of u d] assms(4,5,6,7) obtain sa sb where
    run: "process_missing_date (columns df) (unit_series df mid) mid sa d = Inr sb" and
    sub: "set (extrapolated_data sb) \<subseteq> set (extrapolated_data st)"
    by auto
  from pass [OF run] sub have NR: "?NR \<in> set (extrapolated_data st)"
    by auto
  then have "extrapolated_data st \<noteq> []" by auto
  with res have out: "out = combine (convert_dates df) (extrapolated_data st)"
    by simp
  have made: "\<forall>nr \<in> set (extrapolated_data st). made_by_pass df nr"
    using for_multiunits_made [OF loops] by (simp add: initial_state_def)
  have ex: "\<exists>r \<in> set (rows out). multiunit_id r = mid \<and> date r = d"
  proof -
    from NR have "to_row ?NR \<in> set (rows out)"
      unfolding out set_rows_combine by blast
    moreover have "multiunit_id (to_row ?NR) = mid" "date (to_row ?NR) = d"
      by (simp_all add: to_row_def)
    ultimately show ?thesis by blast
  qed
  have all: "r = to_row ?NR" if r: "r \<in> set (rows out)" "multiunit_id r = mid" "date r = d" for r
  proof -
    from r(1) consider
      (orig) x where "x \<in> set (rows df)" "multiunit_id r = multiunit_id x" "date r = date x"
      | (synth) nr where "nr \<in> set (extrapolated_data st)" "r = to_row nr"
      unfolding out set_rows_combine by (auto split: if_splits)
    then show ?thesis
    proof cases
      case orig
      with r(2,3) assms(7) show ?thesis by force
    next
      case synth
      with r(2,3) have key: "nr_multiunit_id nr = mid" "nr_date nr = d"
        by (simp_all add: to_row_def)
      from made synth(1) key obtain st0 st1 where
        "process_missing_date (columns df) (unit_series df mid) mid st0 d = Inr st1"
        "extrapolated_data st1 = extrapolated_data st0 @ [nr]"
        by (auto simp add: made_by_pass_def)
      with pass have "nr = ?NR" by simp
      with synth(2) show ?thesis by simp
    qed
  qed
  have fields: "is_extrapolated (to_row ?NR) = Some True" "dow (to_row ?NR) = ?dow"
    "price (to_row ?NR) =
       (if ?full
        then fl_scale (fl_add (fl_add (fl_add (base (hd ?X)) (seasonality (hd ?X))) ?dow)
                         (event (hd ?X))) (97 / 100)
        else if ''price'' \<in> columns df \<and> price (hd ?W) \<noteq> NaN
        then fl_scale (price (hd ?W)) (97 / 100)
        else NaN)"
    by (simp_all add: to_row_def)
  show ?thesis
  proof (rule conjI [OF ex], intro ballI impI)
    fix r
    assume "r \<in> set (rows out)" and "multiunit_id r = mid \<and> date r = d"
    then have eq: "r = to_row ?NR"
      using all by blast
    from fields show "is_extrapolated r = Some True \<and> dow r = ?dow
      \<and> price r =
       (if ?full
        then fl_scale (fl_add (fl_add (fl_add (base (hd ?X)) (seasonality (hd ?X))) ?dow)
                         (event (hd ?X))) (97 / 100)
        else if ''price'' \<in> columns df \<and> price (hd ?W) \<noteq> NaN
        then fl_scale (price (hd ?W)) (97 / 100)
        else NaN)"
      unfolding eq by (intro conjI)
  qed
qed

theorem extrapolated_record_price_witness:
  "target_start_date = 19723
   \<and> map date (rows frame_full_factors) = [19724, 20089, 20090, 20096]
   \<and> map date (next_year_rows frame_full_factors 1 19723) = [20089]
   \<and> map date (weekday_rows frame_full_factors 1 19723) = [20089, 20096]
   \<and> map date (extrapolated_rows_of (snd (extrapolate_prices_backward frame_full_factors))) = [19723]
   \<and> is_extrapolated (hd (extrapolated_rows_of (snd (extrapolate_prices_backward frame_full_factors)))) = Some True
   \<and> dow (hd (extrapolated_rows_of (snd (extrapolate_prices_backward frame_full_factors)))) = Num 6
   \<and> price (hd (extrapolated_rows_of (snd (extrapolate_prices_backward frame_full_factors)))) = Num (2813 / 25)
   \<and> map date (rows frame_single_priced) = [19724, 20096]
   \<and> next_year_rows frame_single_priced 1 19723 = []
   \<and> map date (weekday_rows frame_single_priced 1 19723) = [20096]
   \<and> map date (extrapolated_rows_of (snd (extrapolate_prices_backward frame_single_priced))) = [19723]
   \<and> is_extrapolated (hd (extrapolated_rows_of (snd (extrapolate_prices_backward frame_single_priced)))) = Some True
   \<and> dow (hd (extrapolated_rows_of (snd (extrapolate_prices_backward frame_single_priced)))) = Num 5
   \<and> price (hd (extrapolated_rows_of (snd (extrapolate_prices_backward frame_single_priced)))) = Num (2231 / 20)
   \<and> map date (rows frame_single_match) = [19724, 20096]
   \<and> next_year_rows frame_single_match 1 19723 = []
   \<and> map price (weekday_rows frame_single_match 1 19723) = [NaN]
   \<and> map date (extrapolated_rows_of (snd (extrapolate_prices_backward frame_single_match))) = [19723]
   \<and> is_extrapolated (hd (extrapolated_rows_of (snd (extrapolate_prices_backward frame_single_match)))) = Some True
   \<and> dow (hd (extrapolated_rows_of (snd (extrapolate_prices_backward frame_single_match)))) = Num 5
   \<and> price (hd (extrapolated_rows_of (snd (extrapolate_prices_backward frame_single_match)))) = NaN"
proof -
  have t0: "target_start_date = 19723" by code_simp
  have r1: "map date (rows frame_full_factors) = [19724, 20089, 20090, 20096]" by code_simp
  have x1: "map date (next_year_rows frame_full_factors 1 19723) = [20089]" by code_simp
  have w1: "map date (weekday_rows frame_full_factors 1 19723) = [20089, 20096]" by code_simp
  have r2: "map date (rows frame_single_priced) = [19724, 20096]" by code_simp
  have x2: "next_year_rows frame_single_priced 1 19723 = []" by code_simp
  have w2: "map date (weekday_rows frame_single_priced 1 19723) = [20096]" by code_simp
  have r3: "map date (rows frame_single_match) = [19724, 20096]" by code_simp
  have x3: "next_year_rows frame_single_match 1 19723 = []" by code_simp
  have w3: "map price (weekday_rows frame_single_match 1 19723) = [NaN]" by code_simp

  have a1: "snd (extrapolate_prices_backward frame_full_factors)
              = Inr (projr (snd (extrapolate_prices_backward frame_full_factors)))"
  proof -
    have "isl (snd (extrapolate_prices_backward frame_full_factors)) = False"
      by code_simp
    then show ?thesis
      by (cases "snd (extrapolate_prices_backward frame_full_factors)") simp_all
  qed
  have a2: "\<forall>r \<in> set (rows frame_full_factors). target_start_date < date r" by code_simp
  have a3: "''dow'' \<in> columns frame_full_factors" by code_simp
  have a4: "rows frame_full_factors ! 0 \<in> set (rows frame_full_factors)" by code_simp
  have a5: "multiunit_id (rows frame_full_factors ! 0) = 1" by code_simp
  have a6: "target_start_date \<le> 19723" by code_simp
  have a7: "\<forall>r \<in> set (rows frame_full_factors). multiunit_id r = 1 \<longrightarrow> 19723 < date r" by code_simp
  have a8: "weekday_rows frame_full_factors 1 19723 \<noteq> []" by code_simp
  have a9: "length (weekday_rows frame_full_factors 1 19723) = 1
         \<or> (next_year_rows frame_full_factors 1 19723 \<noteq> [] \<and> ''event'' \<in> columns frame_full_factors
            \<and> ''seasonality'' \<in> columns frame_full_factors \<and> ''base'' \<in> columns frame_full_factors)" by code_simp
  have ad: "(if length (weekday_rows frame_full_factors 1 19723) \<ge> 2
                       then mean (map dow (weekday_rows frame_full_factors 1 19723))
                       else dow (hd (weekday_rows frame_full_factors 1 19723))) = Num 6" by code_simp
  have ap: "(if next_year_rows frame_full_factors 1 19723 \<noteq> [] \<and> ''event'' \<in> columns frame_full_factors
                   \<and> ''seasonality'' \<in> columns frame_full_factors \<and> ''base'' \<in> columns frame_full_factors
                then fl_scale
                       (fl_add
                          (fl_add
                             (fl_add (base (hd (next_year_rows frame_full_factors 1 19723)))
                                     (seasonality (hd (next_year_rows frame_full_factors 1 19723))))
                             (Num 6))
                          (event (hd (next_year_rows frame_full_factors 1 19723))))
                       (97 / 100)
                else if ''price'' \<in> columns frame_full_factors \<and> price (hd (weekday_rows frame_full_factors 1 19723)) \<noteq> NaN
                then fl_scale (price (hd (weekday_rows frame_full_factors 1 19723))) (97 / 100)
                else NaN) = Num (2813 / 25)" by code_simp
  have am: "hd (extrapolated_rows_of (snd (extrapolate_prices_backward frame_full_factors))) \<in> set (rows (projr (snd (extrapolate_prices_backward frame_full_factors))))"
    by code_simp
  have ak: "multiunit_id (hd (extrapolated_rows_of (snd (extrapolate_prices_backward frame_full_factors)))) = 1 \<and> date (hd (extrapolated_rows_of (snd (extrapolate_prices_backward frame_full_factors)))) = 19723"
    by code_simp
  have ae: "map date (extrapolated_rows_of (snd (extrapolate_prices_backward frame_full_factors))) = [19723]"
    by code_simp
  have aa: "\<forall>r \<in> set (rows (projr (snd (extrapolate_prices_backward frame_full_factors)))).
          multiunit_id r = 1 \<and> date r = 19723 \<longrightarrow>
            is_extrapolated r = Some True \<and> dow r = Num 6 \<and> price r = Num (2813 / 25)"
    using extrapolated_record_price [OF a1 a2 a3 a4 a5 a6 a7 a8 a9,
      THEN conjunct2]
    unfolding ad ap .
  from aa am ak ae have a: "map date (extrapolated_rows_of (snd (extrapolate_prices_backward frame_full_factors))) = [19723]
   \<and> is_extrapolated (hd (extrapolated_rows_of (snd (extrapolate_prices_backward frame_full_factors)))) = Some True
   \<and> dow (hd (extrapolated_rows_of (snd (extrapolate_prices_backward frame_full_factors)))) = Num 6
   \<and> price (hd (extrapolated_rows_of (snd (extrapolate_prices_backward frame_full_factors)))) = Num (2813 / 25)"
    by blast


  have b1: "snd (extrapolate_prices_backward frame_single_priced)
              = Inr (projr (snd (extrapolate_prices_backward frame_single_priced)))"
  proof -
    have "isl (snd (extrapolate_prices_backward frame_single_priced)) = False"
      by code_simp
    then show ?thesis
      by (cases "snd (extrapolate_prices_backward frame_single_priced)") simp_all
  qed
  have b2: "\<forall>r \<in> set (rows frame_single_priced). target_start_date < date r" by code_simp
  have b3: "''dow'' \<in> columns frame_single_priced" by code_simp
  have b4: "rows frame_single_priced ! 0 \<in> set (rows frame_single_priced)" by code_simp
  have b5: "multiunit_id (rows frame_single_priced ! 0) = 1" by code_simp
  have b6: "target_start_date \<le> 19723" by code_simp
  have b7: "\<forall>r \<in> set (rows frame_single_priced). multiunit_id r = 1 \<longrightarrow> 19723 < date r" by code_simp
  have b8: "weekday_rows frame_single_priced 1 19723 \<noteq> []" by code_simp
  have b9: "length (weekday_rows frame_single_priced 1 19723) = 1
         \<or> (next_year_rows frame_single_priced 1 19723 \<noteq> [] \<and> ''event'' \<in> columns frame_single_priced
            \<and> ''seasonality'' \<in> columns frame_single_priced \<and> ''base'' \<in> columns frame_single_priced)" by code_simp
  have bd: "(if length (weekday_rows frame_single_priced 1 19723) \<ge> 2
                       then mean (map dow (weekday_rows frame_single_priced 1 19723))
                       else dow (hd (weekday_rows frame_single_priced 1 19723))) = Num 5" by code_simp
  have bp: "(if next_year_rows frame_single_priced 1 19723 \<noteq> [] \<and> ''event'' \<in> columns frame_single_priced
                   \<and> ''seasonality'' \<in> columns frame_single_priced \<and> ''base'' \<in> columns frame_single_priced
                then fl_scale
                       (fl_add
                          (fl_add
                             (fl_add (base (hd (next_year_rows frame_single_priced 1 19723)))
                                     (seasonality (hd (next_year_rows frame_single_priced 1 19723))))
                             (Num 5))
                          (event (hd (next_year_rows frame_single_priced 1 19723))))
                       (97 / 100)
                else if ''price'' \<in> columns frame_single_priced \<and> price (hd (weekday_rows frame_single_priced 1 19723)) \<noteq> NaN
                then fl_scale (price (hd (weekday_rows frame_single_priced 1 19723))) (97 / 100)
                else NaN) = Num (2231 / 20)" by code_simp
  have bm: "hd (extrapolated_rows_of (snd (extrapolate_prices_backward frame_single_priced))) \<in> set (rows (projr (snd (extrapolate_prices_backward frame_single_priced))))"
    by code_simp
  have bk: "multiunit_id (hd (extrapolated_rows_of (snd (extrapolate_prices_backward frame_single_priced)))) = 1 \<and> date (hd (extrapolated_rows_of (snd (extrapolate_prices_backward frame_single_priced)))) = 19723"
    by code_simp
  have be: "map date (extrapolated_rows_of (snd (extrapolate_prices_backward frame_single_priced))) = [19723]"
    by code_simp
  have ba: "\<forall>r \<in> set (rows (projr (snd (extrapolate_prices_backward frame_single_priced)))).
          multiunit_id r = 1 \<and> date r = 19723 \<longrightarrow>
            is_extrapolated r = Some True \<and> dow r = Num 5 \<and> price r = Num (2231 / 20)"
    using extrapolated_record_price [OF b1 b2 b3 b4 b5 b6 b7 b8 b9,
      THEN conjunct2]
    unfolding bd bp .
  from ba bm bk be have b: "map date (extrapolated_rows_of (snd (extrapolate_prices_backward frame_single_priced))) = [19723]
   \<and> is_extrapolated (hd (extrapolated_rows_of (snd (extrapolate_prices_backward frame_single_priced)))) = Some True
   \<and> dow (hd (extrapolated_rows_of (snd (extrapolate_prices_backward frame_single_priced)))) = Num 5
   \<and> price (hd (extrapolated_rows_of (snd (extrapolate_prices_backward frame_single_priced)))) = Num (2231 / 20)"
    by blast


  have c1: "snd (extrapolate_prices_backward frame_single_match)
              = Inr (projr (snd (extrapolate_prices_backward frame_single_match)))"
  proof -
    have "isl (snd (extrapolate_prices_backward frame_single_match)) = False"
      by code_simp
    then show ?thesis
      by (cases "snd (extrapolate_prices_backward frame_single_match)") simp_all
  qed
  have c2: "\<forall>r \<in> set (rows frame_single_match). target_start_date < date r" by code_simp
  have c3: "''dow'' \<in> columns frame_single_match" by code_simp
  have c4: "rows frame_single_match ! 0 \<in> set (rows frame_single_match)" by code_simp
  have c5: "multiunit_id (rows frame_single_match ! 0) = 1" by code_simp
  have c6: "target_start_date \<le> 19723" by code_simp
  have c7: "\<forall>r \<in> set (rows frame_single_match). multiunit_id r = 1 \<longrightarrow> 19723 < date r" by code_simp
  have c8: "weekday_rows frame_single_match 1 19723 \<noteq> []" by code_simp
  have c9: "length (weekday_rows frame_single_match 1 19723) = 1
         \<or> (next_year_rows frame_single_match 1 19723 \<noteq> [] \<and> ''event'' \<in> columns frame_single_match
            \<and> ''seasonality'' \<in> columns frame_single_match \<and> ''base'' \<in> columns frame_single_match)" by code_simp
  have cd: "(if length (weekday_rows frame_single_match 1 19723) \<ge> 2
                       then mean (map dow (weekday_rows frame_single_match 1 19723))
                       else dow (hd (weekday_rows frame_single_match 1 19723))) = Num 5" by code_simp
  have cp: "(if next_year_rows frame_single_match 1 19723 \<noteq> [] \<and> ''event'' \<in> columns frame_single_match
                   \<and> ''seasonality'' \<in> columns frame_single_match \<and> ''base'' \<in> columns frame_single_match
                then fl_scale
                       (fl_add
                          (fl_add
                             (fl_add (base (hd (next_year_rows frame_single_match 1 19723)))
                                     (seasonality (hd (next_year_rows frame_single_match 1 19723))))
                             (Num 5))
                          (event (hd (next_year_rows frame_single_match 1 19723))))
                       (97 / 100)
                else if ''price'' \<in> columns frame_single_match \<and> price (hd (weekday_rows frame_single_match 1 19723)) \<noteq> NaN
                then fl_scale (price (hd (weekday_rows frame_single_match 1 19723))) (97 / 100)
                else NaN) = NaN" by code_simp
  have cm: "hd (extrapolated_rows_of (snd (extrapolate_prices_backward frame_single_match))) \<in> set (rows (projr (snd (extrapolate_prices_backward frame_single_match))))"
    by code_simp
  have ck: "multiunit_id (hd (extrapolated_rows_of (snd (extrapolate_prices_backward frame_single_match)))) = 1 \<and> date (hd (extrapolated_rows_of (snd (extrapolate_prices_backward frame_single_match)))) = 19723"
    by code_simp
  have ce: "map date (extrapolated_rows_of (snd (extrapolate_prices_backward frame_single_match))) = [19723]"
    by code_simp
  have ca: "\<forall>r \<in> set (rows (projr (snd (extrapolate_prices_backward frame_single_match)))).
          multiunit_id r = 1 \<and> date r = 19723 \<longrightarrow>
            is_extrapolated r = Some True \<and> dow r = Num 5 \<and> price r = NaN"
    using extrapolated_record_price [OF c1 c2 c3 c4 c5 c6 c7 c8 c9,
      THEN conjunct2]
    unfolding cd cp .
  from ca cm ck ce have c: "map date (extrapolated_rows_of (snd (extrapolate_prices_backward frame_single_match))) = [19723]
   \<and> is_extrapolated (hd (extrapolated_rows_of (snd (extrapolate_prices_backward frame_single_match)))) = Some True
   \<and> dow (hd (extrapolated_rows_of (snd (extrapolate_prices_backward frame_single_match)))) = Num 5
   \<and> price (hd (extrapolated_rows_of (snd (extrapolate_prices_backward frame_single_match)))) = NaN"
    by blast

  from t0 r1 x1 w1 a r2 x2 w2 b r3 x3 w3 c show ?thesis
    by blast
qed

text \<open>
  C5, as stated, fails: in \<open>frame_single_match\<close> the dataset has no row one year after
  2024-01-01, so that the four factors are not all set, the one row of the same weekday
  has no price, and a record for 2024-01-01 is in the result, without a price.
\<close>

theorem price_rule_counterexample:
  "add_years 1 19723 \<notin> set (map date (rows frame_single_match))
   \<and> map price (same_weekday_dates_of (rows frame_single_match) (add_years 1 19723)) = [NaN]
   \<and> map date (extrapolated_rows_of (snd (extrapolate_prices_backward frame_single_match))) = [19723]
   \<and> map price (extrapolated_rows_of (snd (extrapolate_prices_backward frame_single_match))) = [NaN]"
  by code_simp

text \<open>
  C7, amended: \<open>calculate_total_price\<close> leaves its argument as it was;
  \<open>find_improved_matches\<close> leaves it as it was but for the conversion of a date column
  that holds strings; \<open>extrapolate_prices_backward\<close> does the same conversion and leaves
  the argument as it was otherwise, except where it synthesizes nothing although the
  earliest date is after the target start date: there it returns its argument itself,
  with the column \<open>is_extrapolated\<close> added to it when it was not there.
\<close>

theorem input_after_call:
  "fst (calculate_total_price df) = df
   \<and> fst (find_improved_matches df) = convert_dates df
   \<and> (fst (extrapolate_prices_backward df) = convert_dates df
      \<or> (fst (extrapolate_prices_backward df) = add_flag_column (convert_dates df)
          \<and> snd (extrapolate_prices_backward df) = Inr (add_flag_column (convert_dates df))
          \<and> \<not> earliest_not_after (min_date (rows df)) target_start_date))
   \<and> (date_dtype df = Datetime64 \<longrightarrow> convert_dates df = df)
   \<and> (''is_extrapolated'' \<in> columns df \<longrightarrow> add_flag_column (convert_dates df) = convert_dates df)"
proof -
  have "fst (calculate_total_price df) = df"
    by (simp add: calculate_total_price_def Let_def)
  moreover have "fst (find_improved_matches df) = convert_dates df"
    by (simp add: find_improved_matches_def Let_def split: sum.splits)
  moreover have "fst (extrapolate_prices_backward df) = convert_dates df
      \<or> (fst (extrapolate_prices_backward df) = add_flag_column (convert_dates df)
          \<and> snd (extrapolate_prices_backward df) = Inr (add_flag_column (convert_dates df))
          \<and> \<not> earliest_not_after (min_date (rows df)) target_start_date)"
    by (simp add: extrapolate_prices_backward_def Let_def split: sum.splits)
  moreover have "date_dtype df = Datetime64 \<longrightarrow> convert_dates df = df"
    by (simp add: convert_dates_def)
  moreover have "''is_extrapolated'' \<in> columns df \<longrightarrow> add_flag_column (convert_dates df) = convert_dates df"
    by (simp add: add_flag_column_def)
  ultimately show ?thesis by blast
qed

theorem input_after_call_witness:
  "date_dtype frame_single_match = Datetime64
   \<and> fst (calculate_total_price frame_single_match) = frame_single_match
   \<and> fst (find_improved_matches frame_single_match) = frame_single_match
   \<and> fst (extrapolate_prices_backward frame_single_match) = frame_single_match"
proof -
  have h: "date_dtype frame_single_match = Datetime64"
    by (simp add: frame_single_match_def)
  have e: "fst (extrapolate_prices_backward frame_single_match) = frame_single_match"
    by code_simp
  from input_after_call [of frame_single_match] h e show ?thesis by simp
qed

text \<open>
  C7, as stated, fails: \<open>frame_one_row\<close> has no column \<open>is_extrapolated\<close> before the
  call of \<open>extrapolate_prices_backward\<close> and has it after the call.
\<close>

theorem input_changed_counterexample:
  "''is_extrapolated'' \<notin> columns frame_one_row
   \<and> ''is_extrapolated'' \<in> columns (fst (extrapolate_prices_backward frame_one_row))
   \<and> fst (extrapolate_prices_backward frame_one_row) \<noteq> frame_one_row"
  by code_simp

text \<open>
  C3, as stated, fails: the one record synthesized from \<open>frame_single_match\<close> is dated
  2024-01-01, the target start date itself, which is not strictly before it.
\<close>

theorem extrapolated_date_counterexample:
  "map date (extrapolated_rows_of (snd (extrapolate_prices_backward frame_single_match))) = [19723]
   \<and> target_start_date = 19723
   \<and> \<not> (19723 < target_start_date)"
  by code_simp

text \<open>
  C4: a dataset that starts on the target start date is returned as it is, and the result
  has no column \<open>is_extrapolated\<close>.
\<close>

theorem early_return_without_flag:
  "earliest_not_after (min_date (rows frame_at_start)) target_start_date
   \<and> snd (extrapolate_prices_backward frame_at_start) = Inr frame_at_start
   \<and> ''is_extrapolated'' \<notin> columns frame_at_start"
  by code_simp

text \<open>
  C6: in \<open>frame_two_matches\<close> the first missing date has two rows of the same weekday and
  no row one year later, \<open>closest_date\<close> is read before any assignment, and the exception
  leaves the function: no result at all.
\<close>

theorem unbound_closest_date_aborts:
  "snd (extrapolate_prices_backward frame_two_matches) = Inl (UnboundLocalError ''closest_date'')
   \<and> \<not> caught (UnboundLocalError ''closest_date'')"
  by code_simp

text \<open>
  The same exception ends the call on \<open>frame_january\<close>: the dates of January 2024 find
  their factors one year later, and 2024-02-01 finds two Saturdays and no row on
  2025-02-01.
\<close>

lemma january_scenario_aborts:
  "snd (extrapolate_prices_backward frame_january) = Inl (UnboundLocalError ''closest_date'')"
  by code_simp

section \<open>AnalogMatcher\<close>

lemma closest_row_None [simp]: "closest_row t rs = None \<longleftrightarrow> rs = []"
  by (cases rs) (auto split: option.splits)

lemma closest_row_in:
  assumes "closest_row t rs = Some m"
  shows "m \<in> set rs"
  using assms
  by (induction rs arbitrary: m) (auto split: option.splits if_splits)

lemma closest_row_least:
  assumes "closest_row t rs = Some m"
  shows "\<forall>r \<in> set rs. \<bar>date m - t\<bar> \<le> \<bar>date r - t\<bar>"
  using assms
proof (induction rs arbitrary: m)
  case Nil
  then show ?case by simp
next
  case (Cons x xs)
  show ?case
  proof (cases "closest_row t xs")
    case None
    with Cons.prems show ?thesis by simp
  next
    case (Some b)
    from Cons.IH [OF Some] have b: "\<forall>y \<in> set xs. \<bar>date b - t\<bar> \<le> \<bar>date y - t\<bar>" .
    show ?thesis
    proof (cases "\<bar>date x - t\<bar> \<le> \<bar>date b - t\<bar>")
      case True
      with Cons.prems Some have "m = x" by simp
      with True b show ?thesis by fastforce
    next
      case False
      with Cons.prems Some have "m = b" by simp
      with False b show ?thesis by fastforce
    qed
  qed
qed

lemma pick_None [simp]: "pick t cands reason = None \<longleftrightarrow> cands = []"
  by (cases "closest_row t cands") (auto simp add: pick_def)

lemma pick_Nil [simp]: "pick t [] reason = None"
  by (simp add: pick_def)

lemma pick_Some:
  assumes "pick t cands reason = Some b"
  shows "snd b = reason \<and> (\<exists>m \<in> set cands. fst b = date m
           \<and> (\<forall>r \<in> set cands. \<bar>date m - t\<bar> \<le> \<bar>date r - t\<bar>))"
proof (cases "closest_row t cands")
  case None
  with assms show ?thesis by (simp add: pick_def)
next
  case (Some m)
  with assms have "b = (date m, reason)" by (simp add: pick_def)
  with closest_row_in [OF Some] closest_row_least [OF Some] show ?thesis by auto
qed

lemma find_best_match_tiers:
  "find_best_match True past_group future_row =
     Inr (let target_date = add_years (- 1) (date future_row)
          in if fl_gt (event future_row) (Num 1)
                \<and> past_event_matches past_group target_date (event future_row) \<noteq> []
             then pick target_date (past_event_matches past_group target_date (event future_row))
                    ''event_match''
             else if past_dow_matches 14 past_group target_date \<noteq> []
             then pick target_date (past_dow_matches 14 past_group target_date)
                    ''weekday_match_no_event''
             else if past_dow_matches 21 past_group target_date \<noteq> []
             then pick target_date (past_dow_matches 21 past_group target_date) ''weekday_match''
             else pick target_date (closest_dates past_group target_date) ''closest_date'')"
proof -
  let ?t = "add_years (- 1) (date future_row)"
  let ?ev = "past_event_matches past_group ?t (event future_row)"
  have nonempty: "cands \<noteq> []" if "pick ?t cands reason = Some b" for cands reason b
    using that by (cases cands) (simp_all add: pick_def)
  show ?thesis
  proof (cases "pick ?t ?ev ''event_match''")
    case ev: None
    show ?thesis
    proof (cases "pick ?t (past_dow_matches 14 past_group ?t) ''weekday_match_no_event''")
      case d14: None
      show ?thesis
      proof (cases "pick ?t (past_dow_matches 21 past_group ?t) ''weekday_match''")
        case None
        with ev d14 show ?thesis
          by (simp add: find_best_match_def Let_def)
      next
        case (Some b)
        with ev d14 nonempty [OF Some] show ?thesis
          by (simp add: find_best_match_def Let_def)
      qed
    next
      case (Some b)
      with ev nonempty [OF Some] show ?thesis
        by (simp add: find_best_match_def Let_def)
    qed
  next
    case (Some b)
    note ev = this
    show ?thesis
    proof (cases "fl_gt (event future_row) (Num 1)")
      case True
      with ev nonempty [OF ev] show ?thesis
        by (simp add: find_best_match_def Let_def)
    next
      case False
      note no_event = this
      show ?thesis
      proof (cases "pick ?t (past_dow_matches 14 past_group ?t) ''weekday_match_no_event''")
        case d14: None
        show ?thesis
        proof (cases "pick ?t (past_dow_matches 21 past_group ?t) ''weekday_match''")
          case None
          with no_event d14 show ?thesis
            by (simp add: find_best_match_def Let_def)
        next
          case (Some c)
          with no_event d14 nonempty [OF Some] show ?thesis
            by (simp add: find_best_match_def Let_def)
        qed
      next
        case (Some c)
        with no_event nonempty [OF Some] show ?thesis
          by (simp add: find_best_match_def Let_def)
      qed
    qed
  qed
qed

lemma pick_from:
  assumes "pick t cands reason = Some b" and "set cands \<subseteq> set past_group"
  shows "\<exists>m \<in> set past_group. fst b = date m"
  using pick_Some [OF assms(1)] assms(2) by blast

lemma find_best_match_from_past:
  assumes "find_best_match h past_group future_row = Inr (Some b)"
  shows "\<exists>m \<in> set past_group. fst b = date m"
proof (cases h)
  case False
  with assms show ?thesis
    by (simp add: find_best_match_def Let_def)
next
  case True
  let ?t = "add_years (- 1) (date future_row)"
  have sub: "set (past_event_matches past_group ?t (event future_row)) \<subseteq> set past_group"
    "set (past_dow_matches 14 past_group ?t) \<subseteq> set past_group"
    "set (past_dow_matches 21 past_group ?t) \<subseteq> set past_group"
    "set (closest_dates past_group ?t) \<subseteq> set past_group"
    by (auto simp add: past_event_matches_def past_dow_matches_def closest_dates_def)
  from assms True have
    "pick ?t (past_event_matches past_group ?t (event future_row)) ''event_match'' = Some b
     \<or> pick ?t (past_dow_matches 14 past_group ?t) ''weekday_match_no_event'' = Some b
     \<or> pick ?t (past_dow_matches 21 past_group ?t) ''weekday_match'' = Some b
     \<or> pick ?t (closest_dates past_group ?t) ''closest_date'' = Some b"
    by (simp add: find_best_match_tiers Let_def split: if_splits)
  with sub show ?thesis
    using pick_from by blast
qed

lemma for_future_rows_set:
  assumes "for_future_rows cols pg acc frs = Inr res"
  shows "m \<in> set res \<longleftrightarrow>
           m \<in> set acc \<or> (\<exists>fr b. fr \<in> set frs
              \<and> find_best_match (''event'' \<in> cols) pg fr = Inr (Some b)
              \<and> m = improved_row cols pg fr b)"
  using assms
proof (induction frs arbitrary: acc)
  case Nil
  then show ?case by simp
next
  case (Cons fr frs)
  show ?case
  proof (cases "find_best_match (''event'' \<in> cols) pg fr")
    case (Inl e)
    with Cons.prems show ?thesis by simp
  next
    case (Inr ob)
    show ?thesis
    proof (cases ob)
      case None
      with Inr Cons.prems have "for_future_rows cols pg acc frs = Inr res" by simp
      from Cons.IH [OF this] Inr None show ?thesis by fastforce
    next
      case (Some b)
      with Inr Cons.prems have
        "for_future_rows cols pg (acc @ [improved_row cols pg fr b]) frs = Inr res" by simp
      from Cons.IH [OF this] have
        "m \<in> set res \<longleftrightarrow> m \<in> set acc \<or> m = improved_row cols pg fr b
           \<or> (\<exists>fr b. fr \<in> set frs
              \<and> find_best_match (''event'' \<in> cols) pg fr = Inr (Some b)
              \<and> m = improved_row cols pg fr b)"
        by auto
      also have "\<dots> \<longleftrightarrow> m \<in> set acc \<or> (\<exists>fr' b. fr' \<in> set (fr # frs)
              \<and> find_best_match (''event'' \<in> cols) pg fr' = Inr (Some b)
              \<and> m = improved_row cols pg fr' b)"
        using Inr Some by (metis set_ConsD list.set_intros sum.inject(2) option.inject)
      finally show ?thesis .
    qed
  qed
qed

lemma for_future_rows_total:
  assumes "''event'' \<in> cols"
  shows "\<exists>res. for_future_rows cols pg acc frs = Inr res"
  using assms
  by (induction frs arbitrary: acc) (auto simp add: find_best_match_tiers split: option.splits)

lemma for_groups_set:
  assumes "for_groups cols td pd acc mids = Inr res"
  shows "m \<in> set res \<longleftrightarrow>
           m \<in> set acc \<or> (\<exists>fr b. multiunit_id fr \<in> set mids \<and> fr \<in> set td
              \<and> filter (\<lambda>r. multiunit_id r = multiunit_id fr) pd \<noteq> []
              \<and> find_best_match (''event'' \<in> cols)
                    (filter (\<lambda>r. multiunit_id r = multiunit_id fr) pd) fr = Inr (Some b)
              \<and> m = improved_row cols (filter (\<lambda>r. multiunit_id r = multiunit_id fr) pd) fr b)"
  using assms
proof (induction mids arbitrary: acc)
  case Nil
  then show ?case by simp
next
  case (Cons mid mids)
  let ?pg = "\<lambda>i. filter (\<lambda>r. multiunit_id r = i) pd"
  let ?hit = "\<lambda>fr b. fr \<in> set td \<and> ?pg (multiunit_id fr) \<noteq> []
              \<and> find_best_match (''event'' \<in> cols) (?pg (multiunit_id fr)) fr = Inr (Some b)
              \<and> m = improved_row cols (?pg (multiunit_id fr)) fr b"
  show ?case
  proof (cases "?pg mid = []")
    case True
    with Cons.prems have "for_groups cols td pd acc mids = Inr res" by simp
    from Cons.IH [OF this] have
      "m \<in> set res \<longleftrightarrow> m \<in> set acc \<or> (\<exists>fr b. multiunit_id fr \<in> set mids \<and> ?hit fr b)"
      by simp
    also have "\<dots> \<longleftrightarrow> m \<in> set acc \<or> (\<exists>fr b. multiunit_id fr \<in> set (mid # mids) \<and> ?hit fr b)"
      using True by (metis set_ConsD list.set_intros(2))
    finally show ?thesis by simp
  next
    case False
    with Cons.prems obtain acc' where
      grp: "for_future_rows cols (?pg mid) acc (filter (\<lambda>r. multiunit_id r = mid) td) = Inr acc'" and
      rest: "for_groups cols td pd acc' mids = Inr res"
      by (auto simp add: Let_def split: sum.splits)
    have one: "m \<in> set acc' \<longleftrightarrow> m \<in> set acc \<or> (\<exists>fr b. multiunit_id fr = mid \<and> ?hit fr b)"
      using for_future_rows_set [OF grp, of m] False by auto
    from Cons.IH [OF rest] have
      "m \<in> set res \<longleftrightarrow> m \<in> set acc' \<or> (\<exists>fr b. multiunit_id fr \<in> set mids \<and> ?hit fr b)"
      by simp
    also have "\<dots> \<longleftrightarrow> m \<in> set acc \<or> (\<exists>fr b. multiunit_id fr = mid \<and> ?hit fr b)
                 \<or> (\<exists>fr b. multiunit_id fr \<in> set mids \<and> ?hit fr b)"
      using one by simp
    also have "\<dots> \<longleftrightarrow> m \<in> set acc \<or> (\<exists>fr b. multiunit_id fr \<in> set (mid # mids) \<and> ?hit fr b)"
      by (simp only: set_simps insert_iff) blast
    finally show ?thesis by simp
  qed
qed

lemma for_groups_total:
  assumes "''event'' \<in> cols"
  shows "\<exists>res. for_groups cols td pd acc mids = Inr res"
  using assms
proof (induction mids arbitrary: acc)
  case Nil
  then show ?case by simp
next
  case (Cons mid mids)
  obtain acc' where "for_future_rows cols (filter (\<lambda>r. multiunit_id r = mid) pd) acc
      (filter (\<lambda>r. multiunit_id r = mid) td) = Inr acc'"
    using for_future_rows_total [OF Cons.prems] by blast
  with Cons.IH [OF Cons.prems] show ?case
    by (simp add: Let_def)
qed

lemma map_finished:
  "(if ''event'' \<in> columns df then map add_event_match im else im) = map (finished df) im"
  by (induction im) (simp_all add: finished_def)

lemma find_improved_matches_result:
  "snd (find_improved_matches df) =
     (let target_dates = filter (\<lambda>r. date r \<ge> start_date \<and> date r \<le> end_date) (rows df);
          past_data = filter (\<lambda>r. date r < past_date_limit) (rows df)
      in if target_dates = [] \<or> past_data = [] then Inr []
         else (case for_groups (columns df) target_dates past_data []
                      (sort (remdups (map multiunit_id target_dates))) of
                 Inl e \<Rightarrow> Inl e
               | Inr im \<Rightarrow> Inr (map (finished df) im)))"
  by (simp add: find_improved_matches_def Let_def map_finished split: sum.splits)

lemma improved_matches_member:
  assumes "snd (find_improved_matches df) = Inr out"
  shows "m \<in> set out \<longleftrightarrow>
           (\<exists>fr b. fr \<in> set (rows df) \<and> start_date \<le> date fr \<and> date fr \<le> end_date
              \<and> past_group_of df (multiunit_id fr) \<noteq> []
              \<and> find_best_match (''event'' \<in> columns df) (past_group_of df (multiunit_id fr)) fr
                   = Inr (Some b)
              \<and> m = finished df (improved_row (columns df) (past_group_of df (multiunit_id fr)) fr b))"
    (is "_ \<longleftrightarrow> ?rhs")
proof -
  let ?td = "filter (\<lambda>r. date r \<ge> start_date \<and> date r \<le> end_date) (rows df)"
  let ?pd = "filter (\<lambda>r. date r < past_date_limit) (rows df)"
  show ?thesis
  proof (cases "?td = [] \<or> ?pd = []")
    case True
    with assms have "out = []"
      by (simp add: find_improved_matches_result Let_def)
    moreover have "\<not> ?rhs"
    proof
      assume ?rhs
      then obtain fr where "fr \<in> set ?td" "past_group_of df (multiunit_id fr) \<noteq> []"
        by auto
      with True show False
        by (auto simp add: past_group_of_def filter_empty_conv)
    qed
    ultimately show ?thesis by simp
  next
    case False
    with assms obtain im where
      loops: "for_groups (columns df) ?td ?pd [] (sort (remdups (map multiunit_id ?td))) = Inr im"
      and out: "out = map (finished df) im"
      by (auto simp add: find_improved_matches_result Let_def split: sum.splits)
    have im: "x \<in> set im \<longleftrightarrow>
           (\<exists>fr b. fr \<in> set (rows df) \<and> start_date \<le> date fr \<and> date fr \<le> end_date
              \<and> past_group_of df (multiunit_id fr) \<noteq> []
              \<and> find_best_match (''event'' \<in> columns df) (past_group_of df (multiunit_id fr)) fr
                   = Inr (Some b)
              \<and> x = improved_row (columns df) (past_group_of df (multiunit_id fr)) fr b)" for x
      unfolding for_groups_set [OF loops] past_group_of_def by auto
    have "m \<in> set out \<longleftrightarrow> (\<exists>x \<in> set im. m = finished df x)"
      using out by auto
    also have "\<dots> \<longleftrightarrow> ?rhs"
      by (simp only: Bex_def im) blast
    finally show ?thesis .
  qed
qed

lemma improved_row_fields [simp]:
  "m_date (improved_row cols pg fr b) = date fr"
  "m_multiunit_id (improved_row cols pg fr b) = multiunit_id fr"
  "matched_from (improved_row cols pg fr b) = fst b"
  "match_reason (improved_row cols pg fr b) = snd b"
  by (simp_all add: improved_row_def Let_def)

lemma finished_fields [simp]:
  "m_date (finished df m) = m_date m"
  "m_multiunit_id (finished df m) = m_multiunit_id m"
  "matched_from (finished df m) = matched_from m"
  "match_reason (finished df m) = match_reason m"
  by (simp_all add: finished_def add_event_match_def)

text \<open>
  C8: every row of a result of \<open>find_improved_matches\<close> has its date inside the
  forecast window, from 2025-01-01 to 2026-03-31, and was matched from a date strictly
  before the past date limit 2025-04-21.
\<close>

theorem matches_inside_window:
  assumes "snd (find_improved_matches df) = Inr out" and "m \<in> set out"
  shows "start_date \<le> m_date m \<and> m_date m \<le> end_date \<and> matched_from m < past_date_limit"
proof -
  from assms improved_matches_member [OF assms(1), of m] obtain fr b where
    fr: "start_date \<le> date fr" "date fr \<le> end_date" and
    best: "find_best_match (''event'' \<in> columns df) (past_group_of df (multiunit_id fr)) fr
             = Inr (Some b)" and
    m: "m = finished df (improved_row (columns df) (past_group_of df (multiunit_id fr)) fr b)"
    by blast
  from find_best_match_from_past [OF best] obtain p where
    "p \<in> set (past_group_of df (multiunit_id fr))" "fst b = date p"
    by blast
  then have "fst b < past_date_limit"
    by (simp add: past_group_of_def)
  with fr m show ?thesis by simp
qed

lemma find_best_match_cong:
  assumes "date fr = date fr'" and "event fr = event fr'"
  shows "find_best_match h pg fr = find_best_match h pg fr'"
  unfolding find_best_match_def assms by (rule refl)

lemma event_tier_selected:
  assumes "''event'' \<in> columns df"
    and "t \<in> set (rows df)" and "start_date \<le> date t" and "date t \<le> end_date"
    and "fl_gt (event t) (Num 1)"
    and "c \<in> set (rows df)" and "multiunit_id c = multiunit_id t" and "date c < past_date_limit"
    and "\<bar>date c - add_years (- 1) (date t)\<bar> \<le> 14"
    and "fl_le (fl_abs (fl_sub (event c) (event t))) (Num 20)"
    and "\<forall>t' \<in> set (rows df). multiunit_id t' = multiunit_id t \<and> date t' = date t
           \<longrightarrow> event t' = event t"
  shows "\<exists>out. snd (find_improved_matches df) = Inr out
         \<and> (\<exists>m \<in> set out. m_multiunit_id m = multiunit_id t \<and> m_date m = date t)
         \<and> (\<forall>m \<in> set out. m_multiunit_id m = multiunit_id t \<and> m_date m = date t \<longrightarrow>
               match_reason m = ''event_match'' \<and> event_match m = Some True
               \<and> (\<exists>e \<in> set (past_event_matches (past_group_of df (multiunit_id t))
                                (add_years (- 1) (date t)) (event t)).
                     matched_from m = date e
                     \<and> (\<forall>r \<in> set (past_event_matches (past_group_of df (multiunit_id t))
                                     (add_years (- 1) (date t)) (event t)).
                           \<bar>date e - add_years (- 1) (date t)\<bar>
                             \<le> \<bar>date r - add_years (- 1) (date t)\<bar>)))"
proof -
  let ?pg = "past_group_of df (multiunit_id t)"
  let ?tgt = "add_years (- 1) (date t)"
  let ?cands = "past_event_matches ?pg ?tgt (event t)"
  have "\<exists>out. snd (find_improved_matches df) = Inr out"
  proof -
    obtain im where "for_groups (columns df)
        (filter (\<lambda>r. date r \<ge> start_date \<and> date r \<le> end_date) (rows df))
        (filter (\<lambda>r. date r < past_date_limit) (rows df)) []
        (sort (remdups (map multiunit_id
           (filter (\<lambda>r. date r \<ge> start_date \<and> date r \<le> end_date) (rows df))))) = Inr im"
      using for_groups_total [OF assms(1)] by blast
    then show ?thesis
      by (simp add: find_improved_matches_result Let_def)
  qed
  then obtain out where out: "snd (find_improved_matches df) = Inr out" ..
  have c_pg: "c \<in> set ?pg"
    using assms(6,7,8) by (simp add: past_group_of_def)
  then have pg: "?pg \<noteq> []" by auto
  have "c \<in> set ?cands"
    using c_pg assms(9,10) by (simp add: past_event_matches_def)
  then have cands: "?cands \<noteq> []" by auto
  then obtain b where b: "pick ?tgt ?cands ''event_match'' = Some b"
    by (cases "pick ?tgt ?cands ''event_match''") auto
  have best: "find_best_match (''event'' \<in> columns df) ?pg t = Inr (Some b)"
    using assms(1,5) cands b by (simp add: find_best_match_tiers Let_def)
  from pick_Some [OF b] have b_reason: "snd b = ''event_match''" and
    b_date: "\<exists>e \<in> set ?cands. fst b = date e
               \<and> (\<forall>r \<in> set ?cands. \<bar>date e - ?tgt\<bar> \<le> \<bar>date r - ?tgt\<bar>)"
    by blast+
  have "finished df (improved_row (columns df) ?pg t b) \<in> set out"
    unfolding improved_matches_member [OF out]
    using assms(2,3,4) pg best by blast
  then have ex: "\<exists>m \<in> set out. m_multiunit_id m = multiunit_id t \<and> m_date m = date t"
    by (rule rev_bexI) simp
  have all: "match_reason m = ''event_match'' \<and> event_match m = Some True
             \<and> (\<exists>e \<in> set ?cands. matched_from m = date e
                   \<and> (\<forall>r \<in> set ?cands. \<bar>date e - ?tgt\<bar> \<le> \<bar>date r - ?tgt\<bar>))"
    if m: "m \<in> set out" "m_multiunit_id m = multiunit_id t" "m_date m = date t" for m
  proof -
    from m(1) improved_matches_member [OF out, of m] obtain fr b' where
      fr: "fr \<in> set (rows df)" and
      best': "find_best_match (''event'' \<in> columns df) (past_group_of df (multiunit_id fr)) fr
               = Inr (Some b')" and
      m_eq: "m = finished df (improved_row (columns df) (past_group_of df (multiunit_id fr)) fr b')"
      by blast
    from m(2,3) m_eq have same: "multiunit_id fr = multiunit_id t" "date fr = date t"
      by simp_all
    with fr assms(11) have "event fr = event t" by blast
    with same best' best have "b' = b"
      using find_best_match_cong [of fr t "''event'' \<in> columns df" ?pg] by simp
    with m_eq b_reason b_date assms(1) same show ?thesis
      by (simp add: finished_def add_event_match_def)
  qed
  from out ex all show ?thesis by blast
qed

lemma set_past_event_matches:
  "set (past_event_matches pg (add_years (- 1) (date t)) (event t)) = event_tier pg t"
  by (auto simp add: past_event_matches_def event_tier_def)

lemma set_past_dow_matches:
  "set (past_dow_matches w pg (add_years (- 1) (date t))) = weekday_tier w pg t"
  by (auto simp add: past_dow_matches_def weekday_tier_def isna_def)

lemma set_closest_dates:
  "set (closest_dates pg (add_years (- 1) (date t))) = closest_tier pg t"
  by (auto simp add: closest_dates_def closest_tier_def)

lemma pick_nearest:
  assumes "cands \<noteq> []"
  shows "\<exists>d. pick t cands reason = Some (d, reason) \<and> nearest (set cands) t d"
proof -
  from assms obtain b where b: "pick t cands reason = Some b"
    by (cases "pick t cands reason") auto
  from pick_Some [OF b] have "snd b = reason" and "nearest (set cands) t (fst b)"
    by (auto simp add: nearest_def)
  with b show ?thesis
    by (cases b) auto
qed

lemma find_best_match_order:
  "(let target_date = add_years (- 1) (date future_row);
        best = find_best_match True past_group future_row
    in if fl_gt (event future_row) (Num 1) \<and> event_tier past_group future_row \<noteq> {}
       then \<exists>d. best = Inr (Some (d, ''event_match''))
                \<and> nearest (event_tier past_group future_row) target_date d
       else if weekday_tier 14 past_group future_row \<noteq> {}
       then \<exists>d. best = Inr (Some (d, ''weekday_match_no_event''))
                \<and> nearest (weekday_tier 14 past_group future_row) target_date d
       else if weekday_tier 21 past_group future_row \<noteq> {}
       then \<exists>d. best = Inr (Some (d, ''weekday_match''))
                \<and> nearest (weekday_tier 21 past_group future_row) target_date d
       else if closest_tier past_group future_row \<noteq> {}
       then \<exists>d. best = Inr (Some (d, ''closest_date''))
                \<and> nearest (closest_tier past_group future_row) target_date d
       else best = Inr None)"
proof -
  let ?t = "add_years (- 1) (date future_row)"
  have ev: "past_event_matches past_group ?t (event future_row) \<noteq> []
              \<longleftrightarrow> event_tier past_group future_row \<noteq> {}"
    using set_past_event_matches [of past_group future_row] by (metis set_empty)
  have wd: "past_dow_matches w past_group ?t \<noteq> [] \<longleftrightarrow> weekday_tier w past_group future_row \<noteq> {}" for w
    using set_past_dow_matches [of w past_group future_row] by (metis set_empty)
  have cl: "closest_dates past_group ?t \<noteq> [] \<longleftrightarrow> closest_tier past_group future_row \<noteq> {}"
    using set_closest_dates [of past_group future_row] by (metis set_empty)
  have p1: "\<exists>d. pick ?t (past_event_matches past_group ?t (event future_row)) ''event_match''
                  = Some (d, ''event_match'') \<and> nearest (event_tier past_group future_row) ?t d"
    if "event_tier past_group future_row \<noteq> {}"
    using pick_nearest [of "past_event_matches past_group ?t (event future_row)" ?t "''event_match''"]
      that ev by (simp add: set_past_event_matches)
  have p2: "\<exists>d. pick ?t (past_dow_matches w past_group ?t) reason = Some (d, reason)
                 \<and> nearest (weekday_tier w past_group future_row) ?t d"
    if "weekday_tier w past_group future_row \<noteq> {}" for w reason
    using pick_nearest [of "past_dow_matches w past_group ?t" ?t reason] that wd
    by (simp add: set_past_dow_matches)
  have p3: "\<exists>d. pick ?t (closest_dates past_group ?t) ''closest_date'' = Some (d, ''closest_date'')
                 \<and> nearest (closest_tier past_group future_row) ?t d"
    if "closest_tier past_group future_row \<noteq> {}"
    using pick_nearest [of "closest_dates past_group ?t" ?t "''closest_date''"] that cl
    by (simp add: set_closest_dates)
  have p4: "pick ?t (closest_dates past_group ?t) ''closest_date'' = None"
    if "closest_tier past_group future_row = {}"
    using that cl by simp
  show ?thesis
    unfolding Let_def find_best_match_tiers ev wd cl
    using p1 p2 p3 p4 by auto
qed

lemma set_past_group_of:
  "set (past_group_of df (multiunit_id t)) = set (history_of df t)"
  by (auto simp add: past_group_of_def history_of_def)

lemma event_tier_history:
  "event_tier (past_group_of df (multiunit_id t)) t = event_tier (history_of df t) t"
  by (simp add: event_tier_def set_past_group_of)

lemma days_diff_exact:
  assumes "snd (find_improved_matches df) = Inr out" and "m \<in> set out"
  shows "days_diff m = \<bar>matched_from m - add_years (- 1) (m_date m)\<bar>"
proof -
  from assms improved_matches_member [OF assms(1), of m] obtain fr b where
    "m = finished df (improved_row (columns df) (past_group_of df (multiunit_id fr)) fr b)"
    by blast
  then show ?thesis
    by (simp add: finished_def add_event_match_def improved_row_def Let_def)
qed


text \<open>
  C9: in a dataset with an event column, for a target row \<open>t\<close> of the forecast window
  whose event factor is above 1 and a row \<open>c\<close> of the same unit before the past date
  limit, within 14 days of the date one year before \<open>t\<close> and with an event factor within
  20 of that of \<open>t\<close>, the call returns, its result has a row for \<open>t\<close>, and every row
  for \<open>t\<close> has the reason \<open>event_match\<close> and is matched from the date of a nearest
  candidate of the event rule, whatever rows of the same weekday there are. (The rows of
  the unit and date of \<open>t\<close> carry the event factor of \<open>t\<close>: a dataset has one row per
  unit and date.) The second statement is the order of the four rules for one target
  row: the first rule that has a candidate gives the match, at the date of a nearest
  candidate of that rule, and the row is skipped when no rule has one.
\<close>

theorem event_tier_first:
  assumes "''event'' \<in> columns df"
    and "t \<in> set (rows df)" and "start_date \<le> date t" and "date t \<le> end_date"
    and "fl_gt (event t) (Num 1)"
    and "c \<in> set (rows df)" and "multiunit_id c = multiunit_id t" and "date c < past_date_limit"
    and "\<bar>date c - add_years (- 1) (date t)\<bar> \<le> 14"
    and "fl_le (fl_abs (fl_sub (event c) (event t))) (Num 20)"
    and "\<forall>t' \<in> set (rows df). multiunit_id t' = multiunit_id t \<and> date t' = date t
           \<longrightarrow> event t' = event t"
  shows "(\<exists>out. snd (find_improved_matches df) = Inr out
         \<and> (\<exists>m \<in> set out. m_multiunit_id m = multiunit_id t \<and> m_date m = date t)
         \<and> (\<forall>m \<in> set out. m_multiunit_id m = multiunit_id t \<and> m_date m = date t \<longrightarrow>
               match_reason m = ''event_match'' \<and> event_match m = Some True
               \<and> nearest (event_tier (history_of df t) t) (add_years (- 1) (date t)) (matched_from m)
               \<and> days_diff m = \<bar>matched_from m - add_years (- 1) (date t)\<bar>))
   \<and> (let target_date = add_years (- 1) (date future_row);
           best = find_best_match True past_group future_row
       in if fl_gt (event future_row) (Num 1) \<and> event_tier past_group future_row \<noteq> {}
          then \<exists>d. best = Inr (Some (d, ''event_match''))
                   \<and> nearest (event_tier past_group future_row) target_date d
          else if weekday_tier 14 past_group future_row \<noteq> {}
          then \<exists>d. best = Inr (Some (d, ''weekday_match_no_event''))
                   \<and> nearest (weekday_tier 14 past_group future_row) target_date d
          else if weekday_tier 21 past_group future_row \<noteq> {}
          then \<exists>d. best = Inr (Some (d, ''weekday_match''))
                   \<and> nearest (weekday_tier 21 past_group future_row) target_date d
          else if closest_tier past_group future_row \<noteq> {}
          then \<exists>d. best = Inr (Some (d, ''closest_date''))
                   \<and> nearest (closest_tier past_group future_row) target_date d
          else best = Inr None)"
proof (rule conjI)
  from event_tier_selected [OF assms] obtain out where
    out: "snd (find_improved_matches df) = Inr out" and
    ex: "\<exists>m \<in> set out. m_multiunit_id m = multiunit_id t \<and> m_date m = date t" and
    sel: "\<forall>m \<in> set out. m_multiunit_id m = multiunit_id t \<and> m_date m = date t \<longrightarrow>
               match_reason m = ''event_match'' \<and> event_match m = Some True
               \<and> (\<exists>e \<in> set (past_event_matches (past_group_of df (multiunit_id t))
                                (add_years (- 1) (date t)) (event t)).
                     matched_from m = date e
                     \<and> (\<forall>r \<in> set (past_event_matches (past_group_of df (multiunit_id t))
                                     (add_years (- 1) (date t)) (event t)).
                           \<bar>date e - add_years (- 1) (date t)\<bar>
                             \<le> \<bar>date r - add_years (- 1) (date t)\<bar>))"
    by blast
  have "match_reason m = ''event_match'' \<and> event_match m = Some True
        \<and> nearest (event_tier (history_of df t) t) (add_years (- 1) (date t)) (matched_from m)
        \<and> days_diff m = \<bar>matched_from m - add_years (- 1) (date t)\<bar>"
    if m: "m \<in> set out" "m_multiunit_id m = multiunit_id t \<and> m_date m = date t" for m
  proof -
    from sel m have "match_reason m = ''event_match''" "event_match m = Some True"
      and "nearest (event_tier (past_group_of df (multiunit_id t)) t)
                   (add_years (- 1) (date t)) (matched_from m)"
      unfolding nearest_def set_past_event_matches by blast+
    moreover have "days_diff m = \<bar>matched_from m - add_years (- 1) (date t)\<bar>"
      using days_diff_exact [OF out m(1)] m(2) by simp
    ultimately show ?thesis
      by (simp add: event_tier_history)
  qed
  with out ex show "\<exists>out. snd (find_improved_matches df) = Inr out
         \<and> (\<exists>m \<in> set out. m_multiunit_id m = multiunit_id t \<and> m_date m = date t)
         \<and> (\<forall>m \<in> set out. m_multiunit_id m = multiunit_id t \<and> m_date m = date t \<longrightarrow>
               match_reason m = ''event_match'' \<and> event_match m = Some True
               \<and> nearest (event_tier (history_of df t) t) (add_years (- 1) (date t)) (matched_from m)
               \<and> days_diff m = \<bar>matched_from m - add_years (- 1) (date t)\<bar>)"
    by blast
next
  show "(let target_date = add_years (- 1) (date future_row);
           best = find_best_match True past_group future_row
       in if fl_gt (event future_row) (Num 1) \<and> event_tier past_group future_row \<noteq> {}
          then \<exists>d. best = Inr (Some (d, ''event_match''))
                   \<and> nearest (event_tier past_group future_row) target_date d
          else if weekday_tier 14 past_group future_row \<noteq> {}
          then \<exists>d. best = Inr (Some (d, ''weekday_match_no_event''))
                   \<and> nearest (weekday_tier 14 past_group future_row) target_date d
          else if weekday_tier 21 past_group future_row \<noteq> {}
          then \<exists>d. best = Inr (Some (d, ''weekday_match''))
                   \<and> nearest (weekday_tier 21 past_group future_row) target_date d
          else if closest_tier past_group future_row \<noteq> {}
          then \<exists>d. best = Inr (Some (d, ''closest_date''))
                   \<and> nearest (closest_tier past_group future_row) target_date d
          else best = Inr None)"
    by (rule find_best_match_order)
qed


theorem matches_inside_window_witness:
  "snd (find_improved_matches frame_with_event)
     = Inr (projr (snd (find_improved_matches frame_with_event)))
   \<and> hd (projr (snd (find_improved_matches frame_with_event)))
        \<in> set (projr (snd (find_improved_matches frame_with_event)))
   \<and> start_date \<le> m_date (hd (projr (snd (find_improved_matches frame_with_event))))
   \<and> m_date (hd (projr (snd (find_improved_matches frame_with_event)))) \<le> end_date
   \<and> matched_from (hd (projr (snd (find_improved_matches frame_with_event)))) < past_date_limit"
proof -
  have "isl (snd (find_improved_matches frame_with_event)) = False"
    by code_simp
  then have h1: "snd (find_improved_matches frame_with_event)
     = Inr (projr (snd (find_improved_matches frame_with_event)))"
    by (cases "snd (find_improved_matches frame_with_event)") simp_all
  have "projr (snd (find_improved_matches frame_with_event)) \<noteq> []"
    by code_simp
  then have h2: "hd (projr (snd (find_improved_matches frame_with_event)))
        \<in> set (projr (snd (find_improved_matches frame_with_event)))"
    by simp
  from matches_inside_window [OF h1 h2] h1 h2 show ?thesis by blast
qed

theorem event_tier_first_witness:
  "''event'' \<in> columns frame_with_event
   \<and> fl_gt (event (rows frame_with_event ! 2)) (Num 1)
   \<and> \<bar>date (rows frame_with_event ! 1) - add_years (- 1) (date (rows frame_with_event ! 2))\<bar> \<le> 14
   \<and> fl_le (fl_abs (fl_sub (event (rows frame_with_event ! 1)) (event (rows frame_with_event ! 2))))
            (Num 20)
   \<and> date (rows frame_with_event ! 0) = add_years (- 1) (date (rows frame_with_event ! 2))
   \<and> fl_le (event (rows frame_with_event ! 0)) (Num 10)
   \<and> \<not> fl_le (fl_abs (fl_sub (event (rows frame_with_event ! 0)) (event (rows frame_with_event ! 2))))
              (Num 20)
   \<and> (\<exists>out. snd (find_improved_matches frame_with_event) = Inr out
         \<and> (\<exists>m \<in> set out. m_multiunit_id m = multiunit_id (rows frame_with_event ! 2)
                \<and> m_date m = date (rows frame_with_event ! 2))
         \<and> (\<forall>m \<in> set out. m_multiunit_id m = multiunit_id (rows frame_with_event ! 2)
                \<and> m_date m = date (rows frame_with_event ! 2) \<longrightarrow>
               match_reason m = ''event_match'' \<and> event_match m = Some True
               \<and> nearest (event_tier (history_of frame_with_event (rows frame_with_event ! 2))
                              (rows frame_with_event ! 2))
                           (add_years (- 1) (date (rows frame_with_event ! 2))) (matched_from m)
               \<and> days_diff m = \<bar>matched_from m - add_years (- 1) (date (rows frame_with_event ! 2))\<bar>))
   \<and> map m_date (projr (snd (find_improved_matches frame_with_event))) = [20254]
   \<and> map matched_from (projr (snd (find_improved_matches frame_with_event))) = [19884]
   \<and> map match_reason (projr (snd (find_improved_matches frame_with_event))) = [''event_match'']
   \<and> map days_diff (projr (snd (find_improved_matches frame_with_event))) = [5]
   \<and> date (rows frame_with_event ! 1) = 19884
   \<and> date (rows frame_with_event ! 0) = 19889"
proof -
  let ?t = "rows frame_with_event ! 2"
  let ?c = "rows frame_with_event ! 1"
  let ?w = "rows frame_with_event ! 0"
  have h1: "''event'' \<in> columns frame_with_event" by code_simp
  have h2: "?t \<in> set (rows frame_with_event)" by code_simp
  have h3: "start_date \<le> date ?t" by code_simp
  have h4: "date ?t \<le> end_date" by code_simp
  have h5: "fl_gt (event ?t) (Num 1)" by code_simp
  have h6: "?c \<in> set (rows frame_with_event)" by code_simp
  have h7: "multiunit_id ?c = multiunit_id ?t" by code_simp
  have h8: "date ?c < past_date_limit" by code_simp
  have h9: "\<bar>date ?c - add_years (- 1) (date ?t)\<bar> \<le> 14" by code_simp
  have h10: "fl_le (fl_abs (fl_sub (event ?c) (event ?t))) (Num 20)" by code_simp
  have h11: "\<forall>t' \<in> set (rows frame_with_event).
               multiunit_id t' = multiunit_id ?t \<and> date t' = date ?t \<longrightarrow> event t' = event ?t"
    by code_simp
  have w1: "date ?w = add_years (- 1) (date ?t)" by code_simp
  have w2: "fl_le (event ?w) (Num 10)" by code_simp
  have w3: "\<not> fl_le (fl_abs (fl_sub (event ?w) (event ?t))) (Num 20)" by code_simp
  have e1: "map m_date (projr (snd (find_improved_matches frame_with_event))) = [20254]"
    by code_simp
  have e2: "map matched_from (projr (snd (find_improved_matches frame_with_event))) = [19884]"
    by code_simp
  have e3: "map match_reason (projr (snd (find_improved_matches frame_with_event))) = [''event_match'']"
    by code_simp
  have e4: "map days_diff (projr (snd (find_improved_matches frame_with_event))) = [5]"
    by code_simp
  have e5: "date ?c = 19884" by code_simp
  have e6: "date ?w = 19889" by code_simp
  from event_tier_first [OF h1 h2 h3 h4 h5 h6 h7 h8 h9 h10 h11, THEN conjunct1]
    h1 h5 h9 h10 w1 w2 w3 e1 e2 e3 e4 e5 e6
  show ?thesis by blast
qed

text \<open>
  C2: \<open>frame_no_event\<close> has no event column, a target row on 2025-06-15 and a row of the
  same unit and weekday one year before; the search of 21 days reads the event column
  and the call ends in a \<open>KeyError\<close> instead of a result.
\<close>

theorem no_event_column_raises:
  "''event'' \<notin> columns frame_no_event
   \<and> snd (find_improved_matches frame_no_event) = Inl (KeyError ''event'')"
  by code_simp


section \<open>PatternAnalyzer: seasonal patterns\<close>

lemma groupby_mean_member:
  assumes "(k, v) \<in> set (groupby_mean key rs)"
  shows "v = mean (map price (filter (\<lambda>r. key r = k) rs)) \<and> (\<exists>r \<in> set rs. key r = k)"
  using assms by (auto simp add: groupby_mean_def)

lemma merge_member:
  assumes "(mid, mo, p, avg) \<in> set (merge_on_multiunit_id monthly_avg property_avg)"
  shows "((mid, mo), p) \<in> set monthly_avg \<and> (mid, avg) \<in> set property_avg"
  using assms by (auto simp add: merge_on_multiunit_id_def)

text \<open>
  C10: every row of the result of the seasonal detection stands for a unit and a month
  that occur in the data; its seasonal index is the mean price of the unit in that month
  divided by the mean of all the prices of the unit, \<open>is_peak_season\<close> holds exactly
  when the index is above 1.10 and \<open>is_low_season\<close> exactly when it is below 0.90.
\<close>

theorem seasonal_index_is_ratio:
  assumes "detect_seasonal_patterns df = Inr out" and "p \<in> set out"
  shows "seasonal_index p
           = fl_div (monthly_mean df (p_multiunit_id p) (p_month p))
                    (overall_mean df (p_multiunit_id p))
       \<and> is_peak_season p = fl_gt (seasonal_index p) (Num (11 / 10))
       \<and> is_low_season p = fl_lt (seasonal_index p) (Num (9 / 10))
       \<and> (\<exists>r \<in> set (rows df). multiunit_id r = p_multiunit_id p \<and> month_of (date r) = p_month p)"
proof -
  let ?monthly = "groupby_mean (\<lambda>r. (multiunit_id r, month_of (date r))) (rows df)"
  let ?property = "groupby_mean multiunit_id (rows df)"
  from assms(1) have out: "out = map pattern_of (merge_on_multiunit_id ?monthly ?property)"
    by (simp add: detect_seasonal_patterns_def Let_def split: if_splits)
  with assms(2) obtain mid mo pm avg where
    t: "(mid, mo, pm, avg) \<in> set (merge_on_multiunit_id ?monthly ?property)" and
    p: "p = pattern_of (mid, mo, pm, avg)"
    by auto
  from merge_member [OF t] have
    m: "((mid, mo), pm) \<in> set ?monthly" and a: "(mid, avg) \<in> set ?property"
    by simp_all
  from groupby_mean_member [OF m] have
    pm: "pm = monthly_mean df mid mo" and
    ex: "\<exists>r \<in> set (rows df). multiunit_id r = mid \<and> month_of (date r) = mo"
    by (simp_all add: monthly_mean_def)
  from groupby_mean_member [OF a] have avg: "avg = overall_mean df mid"
    by (simp add: overall_mean_def)
  from p pm avg ex show ?thesis
    by (simp add: pattern_of_def Let_def)
qed

theorem seasonal_index_is_ratio_witness:
  "detect_seasonal_patterns frame_two_months = Inr (projr (detect_seasonal_patterns frame_two_months))
   \<and> hd (projr (detect_seasonal_patterns frame_two_months))
        \<in> set (projr (detect_seasonal_patterns frame_two_months))
   \<and> seasonal_index (hd (projr (detect_seasonal_patterns frame_two_months)))
        = fl_div (monthly_mean frame_two_months 1 6) (overall_mean frame_two_months 1)
   \<and> seasonal_index (hd (projr (detect_seasonal_patterns frame_two_months))) = Num (6 / 5)
   \<and> is_peak_season (hd (projr (detect_seasonal_patterns frame_two_months)))"
proof -
  let ?out = "projr (detect_seasonal_patterns frame_two_months)"
  have "isl (detect_seasonal_patterns frame_two_months) = False"
    by code_simp
  then have h1: "detect_seasonal_patterns frame_two_months = Inr ?out"
    by (cases "detect_seasonal_patterns frame_two_months") simp_all
  have "?out \<noteq> []"
    by code_simp
  then have h2: "hd ?out \<in> set ?out"
    by simp
  have key: "p_multiunit_id (hd ?out) = 1" "p_month (hd ?out) = 6"
    by code_simp+
  have val: "fl_div (monthly_mean frame_two_months 1 6) (overall_mean frame_two_months 1) = Num (6 / 5)"
    by code_simp
  have gt: "fl_gt (Num (6 / 5)) (Num (11 / 10))"
    by code_simp
  from seasonal_index_is_ratio [OF h1 h2] h1 h2 key val gt show ?thesis
    by simp
qed

end
